theory Spec2Isabelle
  imports Complex_Main "HOL-Library.List_Lexorder" "HOL-Library.Char_ord"
begin

unbundle bit_operations_syntax

section \<open>JavaScript values and errors\<close>

text \<open>
  A thrown exception or a rejected promise is the \<open>Inl\<close> of a sum; \<open>Inr\<close> is the
  returned (resolved) value.
\<close>

datatype js_error = ReferenceError string | TypeError string | Error string

fun error_message :: "js_error \<Rightarrow> string" where
  "error_message (ReferenceError x) = x @ '' is not defined''"
| "error_message (TypeError m) = m"
| "error_message (Error m) = m"

text \<open>\<^verbatim>\<open>Math.round\<close>: the nearest integer, halves upwards.\<close>

definition js_round :: "real \<Rightarrow> int" where
  "js_round x = \<lfloor>x + 1 / 2\<rfloor>"

text \<open>The remainder operator \<^verbatim>\<open>%\<close> on numbers: the sign follows the dividend.\<close>

definition js_rem :: "real \<Rightarrow> real \<Rightarrow> real" where
  "js_rem a b = a - b * (if a / b < 0 then of_int \<lceil>a / b\<rceil> else of_int \<lfloor>a / b\<rfloor>)"

text \<open>Decimal rendering of a number inside a template literal.\<close>

definition digit_char :: "nat \<Rightarrow> char" where
  "digit_char d = char_of (48 + d)"

fun nat_string :: "nat \<Rightarrow> string" where
  "nat_string n = (if n < 10 then [digit_char n] else nat_string (n div 10) @ [digit_char (n mod 10)])"

definition int_string :: "int \<Rightarrow> string" where
  "int_string z = (if z < 0 then ''-'' @ nat_string (nat (- z)) else nat_string (nat z))"

text \<open>\<^verbatim>\<open>s || d\<close> on strings: the empty string is falsy.\<close>

definition or_string :: "string \<Rightarrow> string \<Rightarrow> string" where
  "or_string s d = (if s = [] then d else s)"

text \<open>
  A JavaScript number that may be \<^verbatim>\<open>NaN\<close>: \<^verbatim>\<open>charCodeAt(0)\<close> of the empty string is
  \<^verbatim>\<open>NaN\<close>, and every later operation on it, \<^verbatim>\<open>Math.min\<close>, \<^verbatim>\<open>Math.max\<close> and
  \<^verbatim>\<open>Math.round\<close> included, keeps it.
\<close>

datatype js_number = Num real | NaN

fun num_map :: "(real \<Rightarrow> real) \<Rightarrow> js_number \<Rightarrow> js_number" where
  "num_map f (Num x) = Num (f x)"
| "num_map f NaN = NaN"

section \<open>Domain types of the agent trading engine\<close>

text \<open>
  The closed identifier sets of \<^verbatim>\<open>domain.ts\<close>. JavaScript numbers are modelled as
  reals, epoch-millisecond instants (\<^verbatim>\<open>Date.now()\<close>, \<^verbatim>\<open>getTime()\<close>) as integers.
\<close>

datatype AgentId = GROK_4 | GPT_5 | DEEPSEEK_V3 | GEMINI_2_5 | CLAUDE_4_5 | QWEN_2_5

datatype RiskLevel = LOW | MEDIUM | HIGH

datatype Category = Crypto | Tech | Finance | Politics | Elections | Sports
  | Entertainment | World | Geopolitics | Other

datatype TradeSide = YES | NO

datatype TradeStatus = OPEN | CLOSED

text \<open>The string an agent identifier is at run time (template literals print it).\<close>

fun agent_id_string :: "AgentId \<Rightarrow> string" where
  "agent_id_string GROK_4 = ''GROK_4''"
| "agent_id_string GPT_5 = ''GPT_5''"
| "agent_id_string DEEPSEEK_V3 = ''DEEPSEEK_V3''"
| "agent_id_string GEMINI_2_5 = ''GEMINI_2_5''"
| "agent_id_string CLAUDE_4_5 = ''CLAUDE_4_5''"
| "agent_id_string QWEN_2_5 = ''QWEN_2_5''"

record AITradeDecision =
  ai_side :: TradeSide
  ai_confidence :: real
  ai_reasoning :: "string list"

record AgentTrade =
  t_id :: string
  t_agentId :: AgentId
  t_marketId :: string
  t_marketQuestion :: string
  t_side :: TradeSide
  t_confidence :: real
  t_score :: real
  t_reasoning :: "string list"
  t_status :: TradeStatus
  t_pnl :: "js_number option"
  t_investmentUsd :: js_number
  t_openedAt :: int
  t_closedAt :: "int option"
  t_summaryDecision :: string
  t_seed :: string

section \<open>SHA-256 (the digest behind \<^verbatim>\<open>createHash('sha256')\<close>)\<close>

text \<open>
  32-bit words are naturals below \<open>2 ^ 32\<close> with the wrap-around written out. The
  message is the byte string of the seed; the digest is the list of its eight words.
\<close>

definition sha256_K :: "nat list" where
  "sha256_K = [
   1116352408, 1899447441, 3049323471, 3921009573, 961987163, 1508970993, 2453635748, 2870763221,
   3624381080, 310598401, 607225278, 1426881987, 1925078388, 2162078206, 2614888103, 3248222580,
   3835390401, 4022224774, 264347078, 604807628, 770255983, 1249150122, 1555081692, 1996064986,
   2554220882, 2821834349, 2952996808, 3210313671, 3336571891, 3584528711, 113926993, 338241895,
   666307205, 773529912, 1294757372, 1396182291, 1695183700, 1986661051, 2177026350, 2456956037,
   2730485921, 2820302411, 3259730800, 3345764771, 3516065817, 3600352804, 4094571909, 275423344,
   430227734, 506948616, 659060556, 883997877, 958139571, 1322822218, 1537002063, 1747873779,
   1955562222, 2024104815, 2227730452, 2361852424, 2428436474, 2756734187, 3204031479, 3329325298]"

definition sha256_H0 :: "nat list" where
  "sha256_H0 = [1779033703, 3144134277, 1013904242, 2773480762,
                1359893119, 2600822924, 528734635, 1541459225]"

text \<open>Addition modulo \<open>2 ^ 32\<close>, rotation and shift to the right, complement.\<close>

definition add32 :: "nat \<Rightarrow> nat \<Rightarrow> nat" where
  "add32 a b = (a + b) mod 4294967296"

definition rotr :: "nat \<Rightarrow> nat \<Rightarrow> nat" where
  "rotr n x = x div 2 ^ n + (x mod 2 ^ n) * 2 ^ (32 - n)"

definition not32 :: "nat \<Rightarrow> nat" where
  "not32 x = 4294967295 - x"

text \<open>The choice and the majority function of the compression rounds.\<close>

definition choose32 :: "nat \<Rightarrow> nat \<Rightarrow> nat \<Rightarrow> nat" where
  "choose32 e f g = (e AND f) XOR (not32 e AND g)"

definition majority32 :: "nat \<Rightarrow> nat \<Rightarrow> nat \<Rightarrow> nat" where
  "majority32 a b c = (a AND b) XOR (a AND c) XOR (b AND c)"

text \<open>The two mixing functions of the rounds and the two of the message schedule.\<close>

definition bsig0 :: "nat \<Rightarrow> nat" where
  "bsig0 a = rotr 2 a XOR rotr 13 a XOR rotr 22 a"

definition bsig1 :: "nat \<Rightarrow> nat" where
  "bsig1 e = rotr 6 e XOR rotr 11 e XOR rotr 25 e"

definition ssig0 :: "nat \<Rightarrow> nat" where
  "ssig0 w = rotr 7 w XOR rotr 18 w XOR w div 2 ^ 3"

definition ssig1 :: "nat \<Rightarrow> nat" where
  "ssig1 w = rotr 17 w XOR rotr 19 w XOR w div 2 ^ 10"

text \<open>
  Padding: the message bytes, the byte \<open>0x80\<close>, zero bytes up to 56 modulo 64, and the
  bit length as eight big-endian bytes.
\<close>

definition zero_block :: "nat list" where
  "zero_block = [0, 0, 0, 0, 0, 0, 0, 0, 0, 0, 0, 0, 0, 0, 0, 0,
                 0, 0, 0, 0, 0, 0, 0, 0, 0, 0, 0, 0, 0, 0, 0, 0,
                 0, 0, 0, 0, 0, 0, 0, 0, 0, 0, 0, 0, 0, 0, 0, 0,
                 0, 0, 0, 0, 0, 0, 0, 0, 0, 0, 0, 0, 0, 0, 0, 0]"

definition be64_bytes :: "nat \<Rightarrow> nat list" where
  "be64_bytes n = [n div 256 ^ 7 mod 256, n div 256 ^ 6 mod 256, n div 256 ^ 5 mod 256,
                   n div 256 ^ 4 mod 256, n div 256 ^ 3 mod 256, n div 256 ^ 2 mod 256,
                   n div 256 mod 256, n mod 256]"

fun byte_length :: "nat list \<Rightarrow> nat \<Rightarrow> nat" where
  "byte_length [] n = n"
| "byte_length (b # bs) n = byte_length bs (n + 1)"

definition sha256_pad :: "nat list \<Rightarrow> nat list" where
  "sha256_pad bs = bs @ [128] @ take ((119 - byte_length bs 0 mod 64) mod 64) zero_block
                     @ be64_bytes (8 * byte_length bs 0)"

fun words_of_bytes :: "nat list \<Rightarrow> nat list" where
  "words_of_bytes (a # b # c # d # rest) =
     (((a * 256 + b) * 256 + c) * 256 + d) # words_of_bytes rest"
| "words_of_bytes _ = []"

text \<open>
  The next word of the message schedule from the window of the last sixteen, and one
  compression round on the eight working variables.
\<close>

definition next_w :: "nat \<Rightarrow> nat \<Rightarrow> nat \<Rightarrow> nat \<Rightarrow> nat" where
  "next_w w0 w1 w9 w14 = add32 (add32 (ssig1 w14) w9) (add32 (ssig0 w1) w0)"

definition round_T1 :: "nat \<Rightarrow> nat \<Rightarrow> nat \<Rightarrow> nat \<Rightarrow> nat \<Rightarrow> nat \<Rightarrow> nat" where
  "round_T1 e f g h k w = add32 (add32 (add32 h (bsig1 e)) (add32 (choose32 e f g) k)) w"

definition round_T2 :: "nat \<Rightarrow> nat \<Rightarrow> nat \<Rightarrow> nat" where
  "round_T2 a b c = add32 (bsig0 a) (majority32 a b c)"

fun round_out :: "nat \<Rightarrow> nat \<Rightarrow> nat list \<Rightarrow> nat list" where
  "round_out t1 t2 [a, b, c, d, e, f, g, h] = [add32 t1 t2, a, b, c, add32 d t1, e, f, g]"
| "round_out t1 t2 st = st"

fun round_step :: "nat \<Rightarrow> nat \<Rightarrow> nat list \<Rightarrow> nat list" where
  "round_step k w [a, b, c, d, e, f, g, h] =
     round_out (round_T1 e f g h k w) (round_T2 a b c) [a, b, c, d, e, f, g, h]"
| "round_step k w st = st"

text \<open>
  The 64 rounds over the round constants: the window holds the schedule words of the
  current and the next fifteen rounds.
\<close>

fun rounds :: "nat list \<Rightarrow> nat list \<Rightarrow> nat list \<Rightarrow> nat list" where
  "rounds (k # ks) [w0, w1, w2, w3, w4, w5, w6, w7, w8, w9, w10, w11, w12, w13, w14, w15] st =
     rounds ks [w1, w2, w3, w4, w5, w6, w7, w8, w9, w10, w11, w12, w13, w14, w15,
                next_w w0 w1 w9 w14] (round_step k w0 st)"
| "rounds _ _ st = st"

definition compress :: "nat list \<Rightarrow> nat list \<Rightarrow> nat list" where
  "compress hs block = map2 add32 hs (rounds sha256_K block hs)"

fun blocks :: "nat list \<Rightarrow> nat list \<Rightarrow> nat list" where
  "blocks hs (w0 # w1 # w2 # w3 # w4 # w5 # w6 # w7 # w8 # w9 # w10 # w11 # w12 # w13 # w14 # w15 # rest) =
     blocks (compress hs [w0, w1, w2, w3, w4, w5, w6, w7, w8, w9, w10, w11, w12, w13, w14, w15]) rest"
| "blocks hs _ = hs"

definition sha256 :: "string \<Rightarrow> nat list" where
  "sha256 s = blocks sha256_H0 (words_of_bytes (sha256_pad (map of_char s)))"

text \<open>A hash state: eight words, each below \<open>2 ^ 32\<close>.\<close>

definition is_state :: "nat list \<Rightarrow> bool" where
  "is_state st \<longleftrightarrow> length st = 8 \<and> list_all (\<lambda>x. x < 4294967296) st"

section \<open>Trade engine (engine.ts)\<close>

record ScoreComponents =
  volumeScore :: real
  liquidityScore :: real
  priceMovementScore :: real
  newsScore :: real
  probScore :: real

record Market =
  m_id :: string
  m_question :: string
  m_category :: Category
  m_volumeUsd :: real
  m_liquidityUsd :: real
  m_currentProbability :: real
  m_priceChange24h :: real

record ScoredMarket = Market +
  m_score :: real
  m_components :: ScoreComponents

record AgentProfile =
  a_id :: AgentId
  a_displayName :: string
  a_risk :: RiskLevel
  a_minVolume :: real
  a_minLiquidity :: real
  a_maxTrades :: nat

record NewsRelevance =
  nr_count :: nat

record NewsArticle =
  n_id :: string
  n_title :: string
  n_description :: string
  n_content :: string
  n_source :: string
  n_publishedAt :: string
  n_url :: string
  n_sourceApi :: string

record WebSearchResult =
  ws_title :: string
  ws_snippet :: string
  ws_url :: string
  ws_source :: string

definition deterministicSeed :: "AgentId \<Rightarrow> string \<Rightarrow> nat \<Rightarrow> string" where
  "deterministicSeed agentId marketId index =
     agent_id_string agentId @ '':'' @ marketId @ '':'' @ nat_string index"

text \<open>\<^verbatim>\<open>hash.readUInt32BE(0)\<close> is the first word of the digest.\<close>

definition readUInt32BE0 :: "nat list \<Rightarrow> nat" where
  "readUInt32BE0 digest = hd digest"

definition deterministicNumber :: "string \<Rightarrow> real" where
  "deterministicNumber seed = real (readUInt32BE0 (sha256 seed)) / 4294967295"

definition getDeterministicSide :: "'a ScoredMarket_scheme \<Rightarrow> string \<Rightarrow> TradeSide" where
  "getDeterministicSide scored seed =
     (let num = deterministicNumber seed;
          probBias = (if m_currentProbability scored > 0.5 then 0.6 else 0.4 :: real)
      in if num < probBias then YES else NO)"

definition getDeterministicConfidence ::
  "'a ScoredMarket_scheme \<Rightarrow> 'b AgentProfile_scheme \<Rightarrow> string \<Rightarrow> real" where
  "getDeterministicConfidence scored agent seed =
     (let baseConfidence = m_score scored / 100;
          riskMultiplier = (if a_risk agent = HIGH then 1.1
                            else if a_risk agent = LOW then 0.9 else 1.0 :: real);
          jitter = (deterministicNumber (seed @ ''jitter'') - 0.5) * 0.1
      in max 0.4 (min 0.95 (baseConfidence * riskMultiplier + jitter)))"

definition getDeterministicReasoning ::
  "'a ScoredMarket_scheme \<Rightarrow> 'b NewsRelevance_scheme \<Rightarrow> string list" where
  "getDeterministicReasoning scored newsRelevance =
     (let c = m_components scored;
          reasons =
            (if volumeScore c > 20
               then [''High trading volume indicates strong market interest''] else [])
          @ (if liquidityScore c > 15
               then [''Strong liquidity provides good entry/exit opportunities''] else [])
          @ (if priceMovementScore c > 10
               then [''Significant price movement suggests momentum''] else [])
          @ (if newsScore c > 15
               then [''Recent news coverage ('' @ nat_string (nr_count newsRelevance)
                      @ '' articles) supports market activity''] else [])
          @ (if probScore c > 7
               then [''Probability near 50% provides good risk/reward''] else [])
      in if length reasons = 0
         then reasons @ [''Market meets minimum criteria for trading'']
         else reasons)"

text \<open>
  What the engine reads from outside the process: the web search (the dynamic import,
  the query builder and the network call, whose failure the first \<^verbatim>\<open>try\<close> absorbs),
  the credential check, the LLM call and the wall clock stamped on web articles.
\<close>

record engine_world =
  searchWeb :: "string \<Rightarrow> Category \<Rightarrow> js_error + WebSearchResult list"
  isAIConfigured :: "AgentId \<Rightarrow> bool"
  getAITradeDecision :: "AgentId \<Rightarrow> ScoredMarket \<Rightarrow> NewsArticle list \<Rightarrow> js_error + AITradeDecision"
  wallClockIso :: string

record PersonalityContext =
  pc_market :: ScoredMarket
  pc_agent :: AgentProfile
  pc_baseSide :: TradeSide
  pc_baseConfidence :: real
  pc_baseSizeUsd :: real

record PersonalityResult =
  pr_side :: TradeSide
  pr_confidence :: real
  pr_sizeUsd :: real

text \<open>
  The rules of \<^verbatim>\<open>personality.ts\<close> are a parameter: the function from an agent id and a
  context to \<^verbatim>\<open>applyPersonalityRules(ctx, getPersonalityRules(agent.id))\<close>.
\<close>

type_synonym personality = "AgentId \<Rightarrow> PersonalityContext \<Rightarrow> PersonalityResult"

definition web_search_results :: "engine_world \<Rightarrow> ScoredMarket \<Rightarrow> WebSearchResult list" where
  "web_search_results w scored =
     (case searchWeb w (m_question scored) (m_category scored) of
        Inl error \<Rightarrow> []
      | Inr results \<Rightarrow> results)"

definition webArticles :: "engine_world \<Rightarrow> ScoredMarket \<Rightarrow> WebSearchResult list \<Rightarrow> NewsArticle list" where
  "webArticles w scored webSearchResults =
     map (\<lambda>(idx, result).
            \<lparr>n_id = ''web-search-'' @ m_id scored @ ''-'' @ nat_string idx,
             n_title = or_string (ws_title result) [],
             n_description = or_string (ws_snippet result) [],
             n_content = or_string (ws_snippet result) [],
             n_source = or_string (ws_source result) ''Web'',
             n_publishedAt = wallClockIso w,
             n_url = or_string (ws_url result) [],
             n_sourceApi = ''web-search''\<rparr>)
         (enumerate 0 webSearchResults)"

text \<open>The body of the second \<^verbatim>\<open>try\<close>: \<open>Inl\<close> when the LLM call throws.\<close>

definition ai_decision ::
  "engine_world \<Rightarrow> AgentProfile \<Rightarrow> ScoredMarket \<Rightarrow> NewsArticle list \<Rightarrow> WebSearchResult list
     \<Rightarrow> js_error + (TradeSide \<times> real \<times> string list)" where
  "ai_decision w agent scored newsArticles webSearchResults =
     (let combinedContext = newsArticles @
            (if length webSearchResults > 0 then webArticles w scored webSearchResults else [])
      in case getAITradeDecision w (a_id agent) scored combinedContext of
           Inl error \<Rightarrow> Inl error
         | Inr aiDecision \<Rightarrow>
             (let side = ai_side aiDecision;
                  confidence = ai_confidence aiDecision;
                  reasoning = ai_reasoning aiDecision;
                  reasoning = (if length webSearchResults > 0
                     then take 3 ((''Web research: '' @ nat_string (length webSearchResults)
                                     @ '' sources analyzed'') # reasoning)
                     else reasoning);
                  confidence = (if a_risk agent = HIGH then min (confidence * 1.05) 0.95
                                else if a_risk agent = LOW then max (confidence * 0.9) 0.4
                                else confidence)
              in Inr (side, confidence, reasoning)))"

definition deterministic_decision ::
  "AgentProfile \<Rightarrow> ScoredMarket \<Rightarrow> NewsRelevance \<Rightarrow> string \<Rightarrow> TradeSide \<times> real \<times> string list" where
  "deterministic_decision agent scored newsRelevance seed =
     (getDeterministicSide scored seed,
      getDeterministicConfidence scored agent seed,
      getDeterministicReasoning scored newsRelevance)"

text \<open>Lines 109 to 182: side, confidence and reasoning before the personality rules.\<close>

definition decide ::
  "engine_world \<Rightarrow> AgentProfile \<Rightarrow> ScoredMarket \<Rightarrow> NewsRelevance \<Rightarrow> NewsArticle list \<Rightarrow> string
     \<Rightarrow> TradeSide \<times> real \<times> string list" where
  "decide w agent scored newsRelevance newsArticles seed =
     (let webSearchResults = web_search_results w scored in
      if isAIConfigured w (a_id agent) then
        (case ai_decision w agent scored newsArticles webSearchResults of
           Inr d \<Rightarrow> d
         | Inl error \<Rightarrow> deterministic_decision agent scored newsRelevance seed)
      else deterministic_decision agent scored newsRelevance seed)"

subsection \<open>Position sizing (lines 204 to 246)\<close>

definition charCodeAt0 :: "string \<Rightarrow> js_number" where
  "charCodeAt0 s = (case s of [] \<Rightarrow> NaN | c # cs \<Rightarrow> Num (real (of_char c :: nat)))"

definition STARTING_CAPITAL :: real where
  "STARTING_CAPITAL = 3000"

fun RISK_BUDGET :: "RiskLevel \<Rightarrow> real" where
  "RISK_BUDGET LOW = 80"
| "RISK_BUDGET MEDIUM = 150"
| "RISK_BUDGET HIGH = 250"

definition MIN_INVESTMENT :: real where
  "MIN_INVESTMENT = 130"

definition MAX_INVESTMENT :: real where
  "MAX_INVESTMENT = STARTING_CAPITAL * 0.20"

definition confidenceMultiplier :: "real \<Rightarrow> real" where
  "confidenceMultiplier confidence = 0.5 + (confidence * 2.0)"

definition normalizedScore :: "ScoredMarket \<Rightarrow> real" where
  "normalizedScore scored = min 1.0 (max 0 ((m_score scored - 10) / 40))"

definition scoreMultiplier :: "ScoredMarket \<Rightarrow> real" where
  "scoreMultiplier scored = 0.4 + (normalizedScore scored * 1.6)"

definition personalitySizeMultiplier :: "PersonalityResult \<Rightarrow> real \<Rightarrow> real" where
  "personalitySizeMultiplier personalityResult baseSizeUsd = pr_sizeUsd personalityResult / baseSizeUsd"

definition marketVariation :: "ScoredMarket \<Rightarrow> js_number" where
  "marketVariation scored = num_map (\<lambda>code. js_rem code 20 / 100) (charCodeAt0 (m_id scored))"

text \<open>\<^verbatim>\<open>investmentUsd\<close> after line 238, before the caps and the floor.\<close>

definition investmentUsd ::
  "AgentProfile \<Rightarrow> ScoredMarket \<Rightarrow> real \<Rightarrow> PersonalityResult \<Rightarrow> real \<Rightarrow> js_number" where
  "investmentUsd agent scored confidence personalityResult baseSizeUsd =
     (let baseRisk = RISK_BUDGET (a_risk agent);
          investment = baseRisk * confidenceMultiplier confidence * scoreMultiplier scored;
          investment = investment * personalitySizeMultiplier personalityResult baseSizeUsd
      in num_map (\<lambda>variation. investment * (1 + variation)) (marketVariation scored))"

text \<open>
  Line 243, \<^verbatim>\<open>Math.max(MIN_INVESTMENT, Math.min(investmentUsd, MAX_INVESTMENT))\<close>: the
  cap is the inner \<^verbatim>\<open>Math.min\<close>, the floor the outer \<^verbatim>\<open>Math.max\<close>.
\<close>

definition cappedInvestment ::
  "AgentProfile \<Rightarrow> ScoredMarket \<Rightarrow> real \<Rightarrow> PersonalityResult \<Rightarrow> real \<Rightarrow> js_number" where
  "cappedInvestment agent scored confidence personalityResult baseSizeUsd =
     num_map (\<lambda>investment. min investment MAX_INVESTMENT)
       (investmentUsd agent scored confidence personalityResult baseSizeUsd)"

definition clampedInvestment ::
  "AgentProfile \<Rightarrow> ScoredMarket \<Rightarrow> real \<Rightarrow> PersonalityResult \<Rightarrow> real \<Rightarrow> js_number" where
  "clampedInvestment agent scored confidence personalityResult baseSizeUsd =
     num_map (\<lambda>capped. max MIN_INVESTMENT capped)
       (cappedInvestment agent scored confidence personalityResult baseSizeUsd)"

definition finalInvestment ::
  "AgentProfile \<Rightarrow> ScoredMarket \<Rightarrow> real \<Rightarrow> PersonalityResult \<Rightarrow> real \<Rightarrow> js_number" where
  "finalInvestment agent scored confidence personalityResult baseSizeUsd =
     num_map (\<lambda>investment. real_of_int (js_round (investment / 10)) * 10)
       (clampedInvestment agent scored confidence personalityResult baseSizeUsd)"

subsection \<open>Status, timestamps and PnL (lines 248 to 305)\<close>

text \<open>
  The numeric bindings in scope where line 250 reads \<^verbatim>\<open>marketHash\<close>: the parameters
  and every \<^verbatim>\<open>const\<close> and \<^verbatim>\<open>let\<close> of the function body above it. The other names in
  scope are the module's imports and functions (\<^verbatim>\<open>createHash\<close>, \<^verbatim>\<open>getAITradeDecision\<close>,
  \<^verbatim>\<open>isAIConfigured\<close>, \<^verbatim>\<open>getPersonalityRules\<close>, \<^verbatim>\<open>applyPersonalityRules\<close>,
  \<^verbatim>\<open>deterministicSeed\<close>, \<^verbatim>\<open>deterministicNumber\<close>, \<^verbatim>\<open>getDeterministicSide\<close>,
  \<^verbatim>\<open>getDeterministicConfidence\<close>, \<^verbatim>\<open>getDeterministicReasoning\<close>,
  \<^verbatim>\<open>generateTradeForMarket\<close>) and the non-numeric locals (\<^verbatim>\<open>agent\<close>, \<^verbatim>\<open>scored\<close>,
  \<^verbatim>\<open>newsRelevance\<close>, \<^verbatim>\<open>newsArticles\<close>, \<^verbatim>\<open>seed\<close>, \<^verbatim>\<open>side\<close>, \<^verbatim>\<open>reasoning\<close>,
  \<^verbatim>\<open>webSearchResults\<close>, \<^verbatim>\<open>personalityRules\<close>, \<^verbatim>\<open>personalityResult\<close>,
  \<^verbatim>\<open>RISK_BUDGET\<close>). Reading a name bound nowhere throws a \<^verbatim>\<open>ReferenceError\<close>.
\<close>

definition engine_scope ::
  "AgentProfile \<Rightarrow> ScoredMarket \<Rightarrow> real \<Rightarrow> PersonalityResult \<Rightarrow> nat \<Rightarrow> int
     \<Rightarrow> (string \<times> js_number) list" where
  "engine_scope agent scored confidence personalityResult index now =
     [(''index'', Num (real index)),
      (''now'', Num (real_of_int now)),
      (''confidence'', Num confidence),
      (''baseSizeUsd'', Num 100),
      (''STARTING_CAPITAL'', Num STARTING_CAPITAL),
      (''baseRisk'', Num (RISK_BUDGET (a_risk agent))),
      (''confidenceMultiplier'', Num (confidenceMultiplier confidence)),
      (''normalizedScore'', Num (normalizedScore scored)),
      (''scoreMultiplier'', Num (scoreMultiplier scored)),
      (''investmentUsd'', clampedInvestment agent scored confidence personalityResult 100),
      (''personalitySizeMultiplier'', Num (personalitySizeMultiplier personalityResult 100)),
      (''marketVariation'', marketVariation scored),
      (''MIN_INVESTMENT'', Num MIN_INVESTMENT),
      (''MAX_INVESTMENT'', Num MAX_INVESTMENT),
      (''finalInvestment'', finalInvestment agent scored confidence personalityResult 100)]"

definition read_identifier :: "(string \<times> js_number) list \<Rightarrow> string \<Rightarrow> js_error + js_number" where
  "read_identifier scope name =
     (case map_of scope name of
        None \<Rightarrow> Inl (ReferenceError name)
      | Some v \<Rightarrow> Inr v)"

fun side_string :: "TradeSide \<Rightarrow> string" where
  "side_string YES = ''YES''"
| "side_string NO = ''NO''"

text \<open>
  Lines 250 to 299 for a given value of \<^verbatim>\<open>marketHash\<close>. Instants are kept as epoch
  milliseconds (the source prints them with \<^verbatim>\<open>toISOString\<close>). \<^verbatim>\<open>NaN % 3 === 0\<close> is
  false; where the trade closes, \<^verbatim>\<open>marketHash\<close> is a multiple of 3 and so an integer.
\<close>

definition build_trade ::
  "AgentProfile \<Rightarrow> ScoredMarket \<Rightarrow> TradeSide \<Rightarrow> real \<Rightarrow> string list \<Rightarrow> js_number \<Rightarrow> string
     \<Rightarrow> nat \<Rightarrow> int \<Rightarrow> js_number \<Rightarrow> AgentTrade" where
  "build_trade agent scored side confidence reasoning finalInv seed index now marketHash =
     (let shouldClose = (case marketHash of NaN \<Rightarrow> False | Num h \<Rightarrow> js_rem h 3 = 0);
          status = (if shouldClose then CLOSED else OPEN);
          openedAt = now - int index * 1000;
          closedAt = (case marketHash of
                        NaN \<Rightarrow> None
                      | Num h \<Rightarrow> if shouldClose
                                 then Some (now - int index * 1000 + \<lfloor>\<bar>js_rem h 3600000\<bar>\<rfloor>)
                                 else None);
          pnl = (case marketHash of
                   NaN \<Rightarrow> None
                 | Num h \<Rightarrow>
                     if shouldClose then
                       (let winProbability = min 0.95 (confidence * 0.8 + (m_score scored / 100) * 0.2);
                            isWin = (js_rem h 100 < winProbability * 100);
                            pnl = (if isWin
                                   then num_map (\<lambda>inv. inv * (0.3 + (confidence * 0.4)
                                                   + ((m_score scored / 100) * 0.3))) finalInv
                                   else num_map (\<lambda>inv. - inv * (0.2 + (confidence * 0.3))) finalInv)
                        in Some (num_map (\<lambda>p. real_of_int (js_round (p * 100)) / 100) pnl))
                     else None);
          summaryDecision = a_displayName agent @ '' decided to trade '' @ side_string side
            @ '' on '' @ [CHR 0x22] @ m_question scored @ [CHR 0x22] @ '' with ''
            @ int_string (js_round (confidence * 100)) @ ''% confidence based on ''
            @ nat_string (length reasoning) @ '' key factors.''
      in \<lparr>t_id = agent_id_string (a_id agent) @ '':'' @ m_id scored,
          t_agentId = a_id agent,
          t_marketId = m_id scored,
          t_marketQuestion = m_question scored,
          t_side = side,
          t_confidence = confidence,
          t_score = m_score scored,
          t_reasoning = reasoning,
          t_status = status,
          t_pnl = pnl,
          t_investmentUsd = finalInv,
          t_openedAt = openedAt,
          t_closedAt = closedAt,
          t_summaryDecision = summaryDecision,
          t_seed = seed\<rparr>)"

text \<open>
  Lines 106 to 246 of \<^verbatim>\<open>generateTradeForMarket\<close>: the seed, the side and the
  confidence after the personality rules, the reasoning, the result of the personality
  rules and the final investment.
\<close>

definition trade_inputs ::
  "engine_world \<Rightarrow> personality \<Rightarrow> AgentProfile \<Rightarrow> ScoredMarket \<Rightarrow> NewsRelevance
     \<Rightarrow> NewsArticle list \<Rightarrow> nat
     \<Rightarrow> string \<times> TradeSide \<times> real \<times> string list \<times> PersonalityResult \<times> js_number" where
  "trade_inputs w rules agent scored newsRelevance newsArticles index =
     (let seed = deterministicSeed (a_id agent) (m_id scored) index;
          (side, confidence, reasoning) = decide w agent scored newsRelevance newsArticles seed;
          baseSizeUsd = 100;
          personalityResult = rules (a_id agent)
            \<lparr>pc_market = scored, pc_agent = agent, pc_baseSide = side,
             pc_baseConfidence = confidence, pc_baseSizeUsd = baseSizeUsd\<rparr>;
          side = pr_side personalityResult;
          confidence = pr_confidence personalityResult;
          finalInv = finalInvestment agent scored confidence personalityResult baseSizeUsd
      in (seed, side, confidence, reasoning, personalityResult, finalInv))"

text \<open>
  \<^verbatim>\<open>generateTradeForMarket\<close>: \<open>Inr None\<close> is the returned \<^verbatim>\<open>null\<close> (market skipped),
  \<open>Inr (Some t)\<close> a returned trade, \<open>Inl e\<close> a rejection with \<open>e\<close>.
\<close>

definition generateTradeForMarket ::
  "engine_world \<Rightarrow> personality \<Rightarrow> AgentProfile \<Rightarrow> ScoredMarket \<Rightarrow> NewsRelevance
     \<Rightarrow> NewsArticle list \<Rightarrow> nat \<Rightarrow> int \<Rightarrow> js_error + AgentTrade option" where
  "generateTradeForMarket w rules agent scored newsRelevance newsArticles index now =
     (if m_score scored < 8 then Inr None
      else
       (let (seed, side, confidence, reasoning, personalityResult, finalInv) =
              trade_inputs w rules agent scored newsRelevance newsArticles index
        in case read_identifier
                  (engine_scope agent scored confidence personalityResult index now)
                  ''marketHash'' of
             Inl error \<Rightarrow> Inl error
           | Inr marketHash \<Rightarrow>
               Inr (Some (build_trade agent scored side confidence reasoning finalInv seed
                            index now marketHash))))"

section \<open>AI decision cache (ai-cache.ts)\<close>

record AICacheEntry =
  decision :: AITradeDecision
  cachedAt :: int

type_synonym ai_cache = "string \<rightharpoonup> AICacheEntry"

definition AI_CACHE_TTL :: int where
  "AI_CACHE_TTL = 30 * 1000"

definition ai_cache_key :: "AgentId \<Rightarrow> string \<Rightarrow> string" where
  "ai_cache_key agentId marketId = agent_id_string agentId @ '':'' @ marketId"

text \<open>
  \<^verbatim>\<open>getCachedAIDecision\<close>: the module-level \<^verbatim>\<open>aiCache\<close> map is passed in and returned;
  the first argument is the reading of \<^verbatim>\<open>Date.now()\<close>. \<open>None\<close> is the source's \<^verbatim>\<open>null\<close>.
\<close>

definition getCachedAIDecision ::
  "int \<Rightarrow> ai_cache \<Rightarrow> AgentId \<Rightarrow> string \<Rightarrow> AITradeDecision option \<times> ai_cache" where
  "getCachedAIDecision now aiCache agentId marketId =
     (let key = ai_cache_key agentId marketId in
      case aiCache key of
        None \<Rightarrow> (None, aiCache)
      | Some entry \<Rightarrow>
          (let age = now - cachedAt entry in
           if age \<ge> AI_CACHE_TTL then (None, aiCache(key := None))
           else (Some (decision entry), aiCache)))"

definition setCachedAIDecision ::
  "int \<Rightarrow> ai_cache \<Rightarrow> AgentId \<Rightarrow> string \<Rightarrow> AITradeDecision \<Rightarrow> ai_cache" where
  "setCachedAIDecision now aiCache agentId marketId d =
     aiCache(ai_cache_key agentId marketId \<mapsto> \<lparr>decision = d, cachedAt = now\<rparr>)"

definition clearAICache :: "ai_cache \<Rightarrow> ai_cache" where
  "clearAICache aiCache = Map.empty"

section \<open>Agent trade cache (cache.ts)\<close>

record AgentCacheEntry =
  ce_trades :: "AgentTrade list"
  ce_generatedAt :: int
  ce_marketIds :: "string list"

type_synonym agent_cache = "AgentId \<rightharpoonup> AgentCacheEntry"

definition CACHE_TTL_MS :: int where
  "CACHE_TTL_MS = 30 * 1000"

text \<open>
  The index loop over two arrays of equal length that returns at the first position
  where the stored and the current market id differ.
\<close>

fun market_ids_changed :: "string list \<Rightarrow> string list \<Rightarrow> bool" where
  "market_ids_changed (x # xs) (y # ys) = (if x \<noteq> y then True else market_ids_changed xs ys)"
| "market_ids_changed _ _ = False"

definition getCachedAgentTrades ::
  "int \<Rightarrow> agent_cache \<Rightarrow> AgentId \<Rightarrow> string list \<Rightarrow> AgentTrade list option \<times> agent_cache" where
  "getCachedAgentTrades now agentCache agentId currentMarketIds =
     (case agentCache agentId of
        None \<Rightarrow> (None, agentCache)
      | Some entry \<Rightarrow>
          (let age = now - ce_generatedAt entry in
           if age \<ge> CACHE_TTL_MS then (None, agentCache(agentId := None))
           else if length (ce_marketIds entry) \<noteq> length currentMarketIds
             then (None, agentCache(agentId := None))
           else if market_ids_changed (ce_marketIds entry) currentMarketIds
             then (None, agentCache(agentId := None))
           else
            (let ageSeconds = real_of_int age / 1000 in
             if ageSeconds > 20 then (None, agentCache(agentId := None))
             else if length (ce_trades entry) = 0 \<and> ageSeconds < 10
               then (None, agentCache(agentId := None))
             else (Some (ce_trades entry), agentCache))))"

definition setCachedAgentTrades ::
  "int \<Rightarrow> agent_cache \<Rightarrow> AgentId \<Rightarrow> AgentTrade list \<Rightarrow> string list \<Rightarrow> agent_cache" where
  "setCachedAgentTrades now agentCache agentId ts mids =
     agentCache(agentId \<mapsto> \<lparr>ce_trades = ts, ce_generatedAt = now, ce_marketIds = mids\<rparr>)"

definition clearAgentCache :: "agent_cache \<Rightarrow> agent_cache" where
  "clearAgentCache agentCache = Map.empty"

section \<open>Agent trade generator (generator.ts)\<close>

text \<open>
  The functions the generator imports from \<^verbatim>\<open>domain.ts\<close>, \<^verbatim>\<open>scoring.ts\<close> and
  \<^verbatim>\<open>personality.ts\<close> are parameters.
\<close>

record generator_deps =
  getAgentProfile :: "AgentId \<Rightarrow> AgentProfile"
  filterCandidateMarkets :: "AgentProfile \<Rightarrow> Market list \<Rightarrow> Market list"
  scoreMarketForAgent :: "Market \<Rightarrow> NewsArticle list \<Rightarrow> AgentProfile \<Rightarrow> int \<Rightarrow> ScoredMarket"
  computeNewsRelevance :: "ScoredMarket \<Rightarrow> NewsArticle list \<Rightarrow> NewsRelevance"
  personalityRules :: personality

text \<open>
  What one call of \<^verbatim>\<open>generateAgentTrades\<close> reads from outside: the two fetches (a
  rejected fetch rejects the call), the clock at each of its readings, and the engine's
  world at each loop index.
\<close>

record generator_world =
  fetchAllMarkets :: "js_error + Market list"
  fetchLatestNews :: "js_error + NewsArticle list"
  clock_lookup :: int
  clock_scoring :: int
  clock_generate :: int
  clock_store :: int
  engine_at :: "nat \<Rightarrow> engine_world"

text \<open>The \<^verbatim>\<open>for\<close> loop over \<^verbatim>\<open>topMarkets\<close>, from index \<open>i\<close> with the trades so far.\<close>

fun generate_loop ::
  "generator_deps \<Rightarrow> (nat \<Rightarrow> engine_world) \<Rightarrow> AgentProfile \<Rightarrow> NewsArticle list \<Rightarrow> int
     \<Rightarrow> nat \<Rightarrow> ScoredMarket list \<Rightarrow> AgentTrade list \<Rightarrow> AgentTrade list" where
  "generate_loop deps worlds agent newsArticles nowMs i [] trades = trades"
| "generate_loop deps worlds agent newsArticles nowMs i (scored # rest) trades =
     (let newsRelevance = computeNewsRelevance deps scored newsArticles;
          trades' = (case generateTradeForMarket (worlds i) (personalityRules deps) agent scored
                            newsRelevance newsArticles i nowMs of
                       Inr (Some trade) \<Rightarrow> trades @ [trade]
                     | Inr None \<Rightarrow> trades
                     | Inl error \<Rightarrow> trades)
      in if length trades' \<ge> a_maxTrades agent then trades'
         else generate_loop deps worlds agent newsArticles nowMs (i + 1) rest trades')"

definition generateAgentTrades ::
  "generator_deps \<Rightarrow> generator_world \<Rightarrow> agent_cache \<Rightarrow> AgentId
     \<Rightarrow> (js_error + AgentTrade list) \<times> agent_cache" where
  "generateAgentTrades deps w agentCache agentId =
     (let agent = getAgentProfile deps agentId in
      case fetchAllMarkets w of
        Inl error \<Rightarrow> (Inl error, agentCache)
      | Inr markets \<Rightarrow>
      (case fetchLatestNews w of
        Inl error \<Rightarrow> (Inl error, agentCache)
      | Inr newsArticles \<Rightarrow>
         (let currentMarketIds = sort (map m_id markets);
              (cached, agentCache) =
                 getCachedAgentTrades (clock_lookup w) agentCache agentId currentMarketIds
          in case cached of
               Some cachedTrades \<Rightarrow> (Inr cachedTrades, agentCache)
             | None \<Rightarrow>
                 (let candidates = filterCandidateMarkets deps agent markets in
                  if length candidates = 0 then (Inr [], agentCache)
                  else
                   (let scoredMarkets =
                          map (\<lambda>market. scoreMarketForAgent deps market newsArticles agent
                                           (clock_scoring w)) candidates;
                        scoredMarkets = sort_key (\<lambda>s. - m_score s) scoredMarkets;
                        topMarkets = take (a_maxTrades agent * 2) scoredMarkets;
                        nowMs = clock_generate w;
                        trades = generate_loop deps (engine_at w) agent newsArticles nowMs
                                   0 topMarkets []
                    in (Inr trades,
                        setCachedAgentTrades (clock_store w) agentCache agentId trades
                          currentMarketIds))))))"

text \<open>Every entry of the agent trade cache holds an empty trade list.\<close>

definition every_agent_id :: "AgentId list" where
  "every_agent_id = [GROK_4, GPT_5, DEEPSEEK_V3, GEMINI_2_5, CLAUDE_4_5, QWEN_2_5]"

definition cache_holds_no_trade :: "agent_cache \<Rightarrow> bool" where
  "cache_holds_no_trade agentCache =
     list_all (\<lambda>agentId. case agentCache agentId of
                            None \<Rightarrow> True
                          | Some entry \<Rightarrow> ce_trades entry = [])
       every_agent_id"

section \<open>Persistence adapter (persistence.ts)\<close>

record AgentTradeRecord =
  r_id :: string
  r_agentId :: AgentId
  r_marketId :: string
  r_category :: "Category option"
  r_side :: TradeSide
  r_status :: TradeStatus
  r_openedAt :: int
  r_closedAt :: "int option"
  r_pnlUsd :: "real option"

record Position =
  pos_marketId :: string
  pos_side :: TradeSide
  pos_sizeUsd :: real

record AgentPortfolio =
  p_agentId :: AgentId
  startingCapitalUsd :: real
  currentCapitalUsd :: real
  realizedPnlUsd :: real
  unrealizedPnlUsd :: real
  maxEquityUsd :: real
  maxDrawdownPct :: real
  openPositions :: "(string \<times> Position) list"
  lastUpdated :: string

text \<open>
  The object \<^verbatim>\<open>getPersistenceAdapter()\<close> returns. Each method is an \<^verbatim>\<open>async\<close> arrow
  function: \<open>Inr\<close> is the value its promise resolves to. The adapter keeps no state, so
  what a method returns does not depend on the calls made before.
\<close>

record persistence_adapter =
  savePortfolio :: "AgentPortfolio \<Rightarrow> js_error + unit"
  loadPortfolio :: "AgentId \<Rightarrow> js_error + AgentPortfolio option"
  getPortfolio :: "AgentId \<Rightarrow> js_error + AgentPortfolio option"
  saveTrade :: "AgentTradeRecord \<Rightarrow> js_error + unit"
  loadTrades :: "AgentId \<Rightarrow> js_error + AgentTradeRecord list"
  updatePortfolio :: "AgentPortfolio \<Rightarrow> js_error + unit"

definition getPersistenceAdapter :: persistence_adapter where
  "getPersistenceAdapter =
     \<lparr>savePortfolio = (\<lambda>portfolio. Inr ()),
      loadPortfolio = (\<lambda>agentId. Inr None),
      getPortfolio = (\<lambda>agentId. Inr None),
      saveTrade = (\<lambda>trade. Inr ()),
      loadTrades = (\<lambda>agentId. Inr []),
      updatePortfolio = (\<lambda>portfolio. Inr ())\<rparr>"

text \<open>
  The compiled copy under \<^verbatim>\<open>dist-server\<close> has four methods only; calling one of the
  other two is a \<^verbatim>\<open>TypeError\<close>.
\<close>

definition getPersistenceAdapter_dist :: persistence_adapter where
  "getPersistenceAdapter_dist =
     \<lparr>savePortfolio = (\<lambda>portfolio. Inr ()),
      loadPortfolio = (\<lambda>agentId. Inr None),
      getPortfolio = (\<lambda>agentId. Inl (TypeError ''persistence.getPortfolio is not a function'')),
      saveTrade = (\<lambda>trade. Inr ()),
      loadTrades = (\<lambda>agentId. Inr []),
      updatePortfolio = (\<lambda>portfolio. Inl (TypeError ''persistence.updatePortfolio is not a function''))\<rparr>"

text \<open>The persisted records with the id of a trade, as \<^verbatim>\<open>loadTrades\<close> reports them.\<close>

definition persisted_with_id :: "persistence_adapter \<Rightarrow> AgentTradeRecord \<Rightarrow> AgentTradeRecord list" where
  "persisted_with_id adapter trade =
     (case loadTrades adapter (r_agentId trade) of
        Inl error \<Rightarrow> []
      | Inr records \<Rightarrow> filter (\<lambda>r. r_id r = r_id trade) records)"

section \<open>Adaptive tuner (adaptive.ts)\<close>

text \<open>
  The ISO timestamps of a trade record are kept as the instants
  \<^verbatim>\<open>new Date(...).getTime()\<close> reads from them.
\<close>

record AgentPerformanceSnapshot =
  s_agentId :: AgentId
  pnlPct30d :: real
  maxDrawdownPct30d :: real
  categoryPnl30d :: "Category \<rightharpoonup> real"
  categoryTrades30d :: "Category \<rightharpoonup> nat"

text \<open>\<^verbatim>\<open>trade.pnlUsd || 0\<close>, \<^verbatim>\<open>a.closedAt || a.openedAt\<close> and \<^verbatim>\<open>trade.category || 'Other'\<close>.\<close>

definition pnl_or_zero :: "AgentTradeRecord \<Rightarrow> real" where
  "pnl_or_zero trade = (case r_pnlUsd trade of None \<Rightarrow> 0 | Some p \<Rightarrow> p)"

definition closed_or_opened :: "AgentTradeRecord \<Rightarrow> int" where
  "closed_or_opened trade = (case r_closedAt trade of None \<Rightarrow> r_openedAt trade | Some c \<Rightarrow> c)"

definition category_or_other :: "AgentTradeRecord \<Rightarrow> Category" where
  "category_or_other trade = (case r_category trade of None \<Rightarrow> Other | Some c \<Rightarrow> c)"

text \<open>The drawdown loop, with \<^verbatim>\<open>maxDrawdownPct30d\<close>, \<^verbatim>\<open>runningPnL\<close> and \<^verbatim>\<open>peakPnL\<close>.\<close>

fun drawdown_loop :: "real \<Rightarrow> AgentTradeRecord list \<Rightarrow> real \<times> real \<times> real \<Rightarrow> real" where
  "drawdown_loop startingCapital [] (maxDrawdown, runningPnL, peakPnL) = maxDrawdown"
| "drawdown_loop startingCapital (trade # rest) (maxDrawdown, runningPnL, peakPnL) =
     (let runningPnL = runningPnL + pnl_or_zero trade;
          peakPnL = max peakPnL runningPnL;
          drawdown = (if peakPnL > 0 then (peakPnL - runningPnL) / (startingCapital + peakPnL)
                      else 0)
      in drawdown_loop startingCapital rest (max maxDrawdown drawdown, runningPnL, peakPnL))"

fun category_loop ::
  "AgentTradeRecord list \<Rightarrow> (Category \<rightharpoonup> real) \<times> (Category \<rightharpoonup> nat)
     \<Rightarrow> (Category \<rightharpoonup> real) \<times> (Category \<rightharpoonup> nat)" where
  "category_loop [] (pnls, counts) = (pnls, counts)"
| "category_loop (trade # rest) (pnls, counts) =
     (let category = category_or_other trade
      in category_loop rest
           (pnls(category \<mapsto> (case pnls category of None \<Rightarrow> 0 | Some v \<Rightarrow> v) + pnl_or_zero trade),
            counts(category \<mapsto> (case counts category of None \<Rightarrow> 0 | Some n \<Rightarrow> n) + 1)))"

text \<open>
  Lines 109 to 146: the snapshot computed from \<^verbatim>\<open>closedTrades\<close>. The \<^verbatim>\<open>sort\<close> of the
  drawdown loop sorts the array in place, so the category loop reads the sorted array.
\<close>

definition snapshot_of_closed :: "AgentId \<Rightarrow> AgentTradeRecord list \<Rightarrow> real \<Rightarrow> AgentPerformanceSnapshot" where
  "snapshot_of_closed agentId closedTrades startingCapital =
     (let totalPnlUsd = foldl (\<lambda>sum t. sum + pnl_or_zero t) 0 closedTrades;
          pnlPct = (if startingCapital > 0 then (totalPnlUsd / startingCapital) * 100 else 0);
          sorted = sort_key closed_or_opened closedTrades;
          maxDrawdown = drawdown_loop startingCapital sorted (0, 0, 0);
          (pnls, counts) = category_loop sorted (Map.empty, Map.empty)
      in \<lparr>s_agentId = agentId,
          pnlPct30d = pnlPct,
          maxDrawdownPct30d = maxDrawdown,
          categoryPnl30d = pnls,
          categoryTrades30d = counts\<rparr>)"

definition thirty_days_ms :: int where
  "thirty_days_ms = 30 * 24 * 60 * 60 * 1000"

text \<open>\<^verbatim>\<open>computePerformanceSnapshot\<close>; the first argument is the reading of \<^verbatim>\<open>Date.now()\<close>.\<close>

definition computePerformanceSnapshot ::
  "int \<Rightarrow> AgentId \<Rightarrow> AgentTradeRecord list \<Rightarrow> real \<Rightarrow> AgentPerformanceSnapshot" where
  "computePerformanceSnapshot now agentId trades startingCapital =
     (let thirtyDaysAgo = now - thirty_days_ms;
          recentTrades = filter (\<lambda>t. r_openedAt t \<ge> thirtyDaysAgo) trades;
          closedTrades = filter (\<lambda>t. r_status t = CLOSED \<and> r_pnlUsd t \<noteq> None) recentTrades
      in snapshot_of_closed agentId closedTrades startingCapital)"

text \<open>
  The window as the specification words it: the closed trades whose \<^verbatim>\<open>closedAt\<close> falls
  in the last 30 days.
\<close>

definition spec_closed_in_window :: "int \<Rightarrow> AgentTradeRecord list \<Rightarrow> AgentTradeRecord list" where
  "spec_closed_in_window now trades =
     filter (\<lambda>t. r_status t = CLOSED \<and>
                 (case r_closedAt t of None \<Rightarrow> False
                  | Some c \<Rightarrow> now - thirty_days_ms \<le> c \<and> c \<le> now)) trades"

text \<open>The window the code applies.\<close>

definition opened_in_window :: "int \<Rightarrow> AgentTradeRecord list \<Rightarrow> AgentTradeRecord list" where
  "opened_in_window now trades =
     filter (\<lambda>t. r_openedAt t \<ge> now - thirty_days_ms \<and> r_status t = CLOSED \<and> r_pnlUsd t \<noteq> None)
       trades"

section \<open>Trading cycle (cycle.ts)\<close>

record CycleResult =
  c_agentId :: AgentId
  c_success :: bool
  c_candidateMarkets :: nat
  c_newTrades :: nat
  c_closedTrades :: nat
  c_openPositions :: nat
  c_cycleMs :: int
  c_error :: "string option"

record cycle_config =
  enabled :: bool
  intervalMs :: int

text \<open>
  What a trading cycle reads from outside \<^verbatim>\<open>cycle.ts\<close>: the agent ids
  (\<^verbatim>\<open>Object.keys(AGENT_PROFILES)\<close>), the imported functions, each of which may throw or
  reject, and the readings of \<^verbatim>\<open>Date.now()\<close> at the start and the end of an agent's cycle.
  \<^verbatim>\<open>updatePortfolioMetrics\<close> is called as a statement: what it returns is discarded and
  the cycle goes on with the portfolio it built (\<^verbatim>\<open>portfolio.ts\<close> is not among the
  sources; the call is taken to leave its argument as it is).
\<close>

record cycle_env =
  ALL_AGENT_IDS :: "AgentId list"
  agentProfile :: "AgentId \<Rightarrow> js_error + AgentProfile"
  persistence :: persistence_adapter
  createInitialPortfolio :: "AgentId \<Rightarrow> js_error + AgentPortfolio"
  updatePortfolioMetrics :: "AgentPortfolio \<Rightarrow> (string \<rightharpoonup> Market) \<Rightarrow> js_error + unit"
  agentTrades :: "AgentId \<Rightarrow> js_error + AgentTrade list"
  cycleMarkets :: "js_error + Market list"
  cycleNews :: "js_error + NewsArticle list"
  startTime :: "AgentId \<Rightarrow> int"
  endTime :: "AgentId \<Rightarrow> int"

definition failed_cycle :: "AgentId \<Rightarrow> int \<Rightarrow> string \<Rightarrow> CycleResult" where
  "failed_cycle agentId cycleMs message =
     \<lparr>c_agentId = agentId, c_success = False, c_candidateMarkets = 0, c_newTrades = 0,
      c_closedTrades = 0, c_openPositions = 0, c_cycleMs = cycleMs, c_error = Some message\<rparr>"

text \<open>The \<^verbatim>\<open>try\<close> block of \<^verbatim>\<open>runAgentCycle\<close>: \<open>Inl\<close> is what its \<^verbatim>\<open>catch\<close> receives.\<close>

definition agent_cycle_try ::
  "cycle_env \<Rightarrow> AgentId \<Rightarrow> AgentProfile \<Rightarrow> Market list \<Rightarrow> (string \<rightharpoonup> Market)
     \<Rightarrow> js_error + CycleResult" where
  "agent_cycle_try env agentId agent markets marketsMap =
     (case getPortfolio (persistence env) agentId of
        Inl error \<Rightarrow> Inl error
      | Inr portfolioRecord \<Rightarrow>
     (case (case portfolioRecord of
              Some record \<Rightarrow> Inr (record\<lparr>p_agentId := agentId, openPositions := []\<rparr>)
            | None \<Rightarrow> createInitialPortfolio env agentId) of
        Inl error \<Rightarrow> Inl error
      | Inr portfolio \<Rightarrow>
     (case updatePortfolioMetrics env portfolio marketsMap of
        Inl error \<Rightarrow> Inl error
      | Inr discarded \<Rightarrow>
     (case agentTrades env agentId of
        Inl error \<Rightarrow> Inl error
      | Inr trades \<Rightarrow>
     (let candidateMarkets =
            length (filter (\<lambda>m. m_volumeUsd m \<ge> a_minVolume agent
                              \<and> m_liquidityUsd m \<ge> a_minLiquidity agent) markets)
      in case savePortfolio (persistence env) portfolio of
           Inl error \<Rightarrow> Inl error
         | Inr saved \<Rightarrow>
             Inr \<lparr>c_agentId = agentId,
                  c_success = True,
                  c_candidateMarkets = candidateMarkets,
                  c_newTrades = length (filter (\<lambda>t. t_status t = OPEN) trades),
                  c_closedTrades = length (filter (\<lambda>t. t_status t = CLOSED) trades),
                  c_openPositions = length (remdups (map fst (openPositions portfolio))),
                  c_cycleMs = endTime env agentId - startTime env agentId,
                  c_error = None\<rparr>)))))"

text \<open>
  \<^verbatim>\<open>runAgentCycle\<close>: \<open>Inl\<close> is a rejected promise (a throw outside the \<^verbatim>\<open>try\<close>),
  \<open>Inr\<close> the returned cycle result.
\<close>

definition runAgentCycle ::
  "cycle_env \<Rightarrow> AgentId \<Rightarrow> Market list \<Rightarrow> (string \<rightharpoonup> Market) \<Rightarrow> js_error + CycleResult" where
  "runAgentCycle env agentId markets marketsMap =
     (case agentProfile env agentId of
        Inl error \<Rightarrow> Inl error
      | Inr agent \<Rightarrow>
          (case agent_cycle_try env agentId agent markets marketsMap of
             Inr result \<Rightarrow> Inr result
           | Inl error \<Rightarrow>
               Inr (failed_cycle agentId (endTime env agentId - startTime env agentId)
                      (error_message error))))"

text \<open>One settled promise of \<^verbatim>\<open>Promise.allSettled\<close> turned into a cycle result.\<close>

definition settled_result :: "AgentId \<Rightarrow> js_error + CycleResult \<Rightarrow> CycleResult" where
  "settled_result agentId result =
     (case result of
        Inr v \<Rightarrow> v
      | Inl reason \<Rightarrow> failed_cycle agentId 0 (or_string (error_message reason) ''Unknown error''))"

definition markets_map :: "Market list \<Rightarrow> (string \<rightharpoonup> Market)" where
  "markets_map markets = foldl (\<lambda>marketsMap market. marketsMap(m_id market \<mapsto> market)) Map.empty markets"

text \<open>
  \<^verbatim>\<open>runTradingCycle\<close>: \<open>Inl\<close> is the rejection of \<^verbatim>\<open>Promise.all\<close> over the two fetches.
  When both fetches reject, \<^verbatim>\<open>Promise.all\<close> rejects with the reason of the one that
  rejected first; the model gives the reason of the market fetch there.
\<close>

definition runTradingCycle :: "cycle_env \<Rightarrow> cycle_config \<Rightarrow> js_error + CycleResult list" where
  "runTradingCycle env config =
     (if \<not> enabled config then Inr []
      else
       (case cycleMarkets env of
          Inl error \<Rightarrow> Inl error
        | Inr markets \<Rightarrow>
       (case cycleNews env of
          Inl error \<Rightarrow> Inl error
        | Inr news \<Rightarrow>
           (let marketsMap = markets_map markets;
                results = map (\<lambda>agentId. runAgentCycle env agentId markets marketsMap)
                            (ALL_AGENT_IDS env)
            in Inr (map (\<lambda>(agentId, result). settled_result agentId result)
                      (zip (ALL_AGENT_IDS env) results))))))"

section \<open>Concrete scenarios\<close>

definition example_decision :: AITradeDecision where
  "example_decision = \<lparr>ai_side = YES, ai_confidence = 7 / 10, ai_reasoning = [''Momentum'']\<rparr>"

definition example_trade :: AgentTrade where
  "example_trade =
     \<lparr>t_id = ''GROK_4:m1'', t_agentId = GROK_4, t_marketId = ''m1'',
      t_marketQuestion = ''Will X happen by 2026?'', t_side = YES, t_confidence = 7 / 10,
      t_score = 42, t_reasoning = [''Momentum''], t_status = OPEN, t_pnl = None,
      t_investmentUsd = Num 200, t_openedAt = 0, t_closedAt = None,
      t_summaryDecision = ''GROK decided to trade YES'', t_seed = ''GROK_4:m1:0''\<rparr>"

definition example_cache_entry :: AgentCacheEntry where
  "example_cache_entry = \<lparr>ce_trades = [example_trade], ce_generatedAt = 0, ce_marketIds = [''m1'']\<rparr>"

definition example_closed_record :: AgentTradeRecord where
  "example_closed_record =
     \<lparr>r_id = ''GROK_4:m1'', r_agentId = GROK_4, r_marketId = ''m1'', r_category = Some Crypto,
      r_side = YES, r_status = CLOSED, r_openedAt = 1000, r_closedAt = Some 2000,
      r_pnlUsd = Some 40\<rparr>"

definition example_reopened_record :: AgentTradeRecord where
  "example_reopened_record =
     example_closed_record\<lparr>r_status := OPEN, r_closedAt := None, r_pnlUsd := None\<rparr>"

text \<open>
  The market of the cold-start scenario, the profiles of two agents, and worlds with and
  without an LLM credential.
\<close>

definition example_scored :: ScoredMarket where
  "example_scored =
     \<lparr>m_id = ''m1'', m_question = ''Will X happen by 2026?'', m_category = Crypto,
      m_volumeUsd = 120000, m_liquidityUsd = 30000, m_currentProbability = 55 / 100,
      m_priceChange24h = 4 / 100, m_score = 12,
      m_components = \<lparr>volumeScore = 30, liquidityScore = 12, priceMovementScore = 6,
                       newsScore = 0, probScore = 9\<rparr>\<rparr>"

definition grok_agent :: AgentProfile where
  "grok_agent = \<lparr>a_id = GROK_4, a_displayName = ''GROK 4'', a_risk = HIGH,
                  a_minVolume = 50000, a_minLiquidity = 10000, a_maxTrades = 5\<rparr>"

definition claude_agent :: AgentProfile where
  "claude_agent = \<lparr>a_id = CLAUDE_4_5, a_displayName = ''CLAUDE 4.5'', a_risk = LOW,
                    a_minVolume = 80000, a_minLiquidity = 18000, a_maxTrades = 5\<rparr>"

definition no_news :: NewsRelevance where
  "no_news = \<lparr>nr_count = 0\<rparr>"

definition offline_world :: engine_world where
  "offline_world =
     \<lparr>searchWeb = (\<lambda>question category. Inr []),
      isAIConfigured = (\<lambda>agentId. False),
      getAITradeDecision = (\<lambda>agentId scored context. Inl (Error ''no credential'')),
      wallClockIso = ''2026-01-01T00:00:00.000Z''\<rparr>"


definition failing_llm_world :: engine_world where
  "failing_llm_world =
     \<lparr>searchWeb = (\<lambda>question category. Inr []),
      isAIConfigured = (\<lambda>agentId. True),
      getAITradeDecision = (\<lambda>agentId scored context. Inl (Error ''access denied'')),
      wallClockIso = ''2026-01-01T00:00:00.000Z''\<rparr>"


text \<open>Personality rules that change nothing, and rules that halve the size.\<close>

definition no_rules :: personality where
  "no_rules agentId ctx =
     \<lparr>pr_side = pc_baseSide ctx, pr_confidence = pc_baseConfidence ctx,
      pr_sizeUsd = pc_baseSizeUsd ctx\<rparr>"


definition example_deps :: generator_deps where
  "example_deps =
     \<lparr>getAgentProfile = (\<lambda>agentId. grok_agent),
      filterCandidateMarkets = (\<lambda>agent markets.
         filter (\<lambda>m. m_volumeUsd m \<ge> a_minVolume agent \<and> m_liquidityUsd m \<ge> a_minLiquidity agent)
           markets),
      scoreMarketForAgent = (\<lambda>market news agent now.
         Market.extend market (ScoredMarket.fields 12 (m_components example_scored))),
      computeNewsRelevance = (\<lambda>scored news. no_news),
      personalityRules = no_rules\<rparr>"

definition example_generator_world :: generator_world where
  "example_generator_world =
     \<lparr>fetchAllMarkets = Inr [Market.truncate example_scored],
      fetchLatestNews = Inr [],
      clock_lookup = 1000, clock_scoring = 1001, clock_generate = 1002, clock_store = 1003,
      engine_at = (\<lambda>i. offline_world)\<rparr>"

text \<open>
  The fallback confidence as the specification words it: the per-risk bound is applied
  to the raw value, then the jitter is added, then the sum is clamped.
\<close>

definition spec_confidence :: "real \<Rightarrow> RiskLevel \<Rightarrow> string \<Rightarrow> real" where
  "spec_confidence score risk seed =
     (let raw = score / 100;
          adjusted = (case risk of
                        HIGH \<Rightarrow> min (raw * 1.10) 0.95
                      | LOW \<Rightarrow> max (raw * 0.90) 0.40
                      | MEDIUM \<Rightarrow> raw);
          jitter = (deterministicNumber (seed @ ''jitter'') - 0.5) * 0.10
      in max 0.40 (min 0.95 (adjusted + jitter)))"

text \<open>
  A trade opened 40 days and closed one day before \<open>example_now\<close> (day 100), with a
  realised PnL of 120.
\<close>

definition example_now :: int where
  "example_now = 100 * 24 * 60 * 60 * 1000"

definition example_old_trade :: AgentTradeRecord where
  "example_old_trade =
     \<lparr>r_id = ''GROK_4:m9'', r_agentId = GROK_4, r_marketId = ''m9'', r_category = Some Crypto,
      r_side = YES, r_status = CLOSED, r_openedAt = 60 * 24 * 60 * 60 * 1000,
      r_closedAt = Some (99 * 24 * 60 * 60 * 1000), r_pnlUsd = Some 120\<rparr>"

text \<open>
  A cycle over the six agents in which the trade generation of CLAUDE_4_5 rejects inside
  the \<^verbatim>\<open>try\<close> and the profile lookup of QWEN_2_5 throws before it; the same cycle
  with the news fetch rejecting.
\<close>

definition example_portfolio :: "AgentId \<Rightarrow> AgentPortfolio" where
  "example_portfolio agentId =
     \<lparr>p_agentId = agentId, startingCapitalUsd = 3000, currentCapitalUsd = 3000,
      realizedPnlUsd = 0, unrealizedPnlUsd = 0, maxEquityUsd = 3000, maxDrawdownPct = 0,
      openPositions = [], lastUpdated = ''2026-01-01T00:00:00.000Z''\<rparr>"

definition example_cycle_env :: cycle_env where
  "example_cycle_env =
     \<lparr>ALL_AGENT_IDS = [GROK_4, GPT_5, DEEPSEEK_V3, GEMINI_2_5, CLAUDE_4_5, QWEN_2_5],
      agentProfile = (\<lambda>agentId. if agentId = QWEN_2_5 then Inl (Error ''Unknown agent'')
                                 else if agentId = CLAUDE_4_5 then Inr claude_agent
                                 else Inr grok_agent),
      persistence = getPersistenceAdapter,
      createInitialPortfolio = (\<lambda>agentId. Inr (example_portfolio agentId)),
      updatePortfolioMetrics = (\<lambda>portfolio marketsMap. Inr ()),
      agentTrades = (\<lambda>agentId. if agentId = CLAUDE_4_5 then Inl (Error ''LLM quota exceeded'')
                                else Inr []),
      cycleMarkets = Inr [Market.truncate example_scored],
      cycleNews = Inr [],
      startTime = (\<lambda>agentId. 1000),
      endTime = (\<lambda>agentId. 1005)\<rparr>"

definition example_cycle_env_without_news :: cycle_env where
  "example_cycle_env_without_news = example_cycle_env\<lparr>cycleNews := Inl (Error ''news down'')\<rparr>"

section \<open>Verified properties\<close>

subsection \<open>AI decision cache\<close>

text \<open>
  C7, as amended. A decision stored under the key \<open>agentId:marketId\<close> is returned by a
  lookup exactly when its age is below 30 seconds (the constant \<open>AI_CACHE_TTL\<close>, which
  the module fixes); at an age of 30 seconds or more the lookup misses and removes the
  entry. The second conjunct is the same for a decision just stored by
  \<open>setCachedAIDecision\<close>.
\<close>

theorem ai_cache_ttl_contract:
  assumes "aiCache (ai_cache_key agentId marketId) = Some entry"
  shows "getCachedAIDecision now aiCache agentId marketId =
           (if now - cachedAt entry < 30 * 1000 then (Some (decision entry), aiCache)
            else (None, aiCache(ai_cache_key agentId marketId := None)))
         \<and> getCachedAIDecision t1 (setCachedAIDecision t0 aiCache agentId marketId d)
               agentId marketId =
           (if t1 - t0 < 30 * 1000
            then (Some d, setCachedAIDecision t0 aiCache agentId marketId d)
            else (None, aiCache(ai_cache_key agentId marketId := None)))"
  using assms
  by (simp add: getCachedAIDecision_def setCachedAIDecision_def AI_CACHE_TTL_def Let_def)

theorem ai_cache_ttl_contract_witness:
  "(setCachedAIDecision 0 Map.empty GROK_4 ''m1'' example_decision) (ai_cache_key GROK_4 ''m1'')
      = Some \<lparr>decision = example_decision, cachedAt = 0\<rparr>
   \<and> fst (getCachedAIDecision 29999
            (setCachedAIDecision 0 Map.empty GROK_4 ''m1'' example_decision) GROK_4 ''m1'')
      = Some example_decision
   \<and> fst (getCachedAIDecision 30000
            (setCachedAIDecision 0 Map.empty GROK_4 ''m1'' example_decision) GROK_4 ''m1'')
      = None"
proof -
  let ?c = "setCachedAIDecision 0 Map.empty GROK_4 ''m1'' example_decision"
  have h: "?c (ai_cache_key GROK_4 ''m1'') = Some \<lparr>decision = example_decision, cachedAt = 0\<rparr>"
    by (simp add: setCachedAIDecision_def)
  show ?thesis
    using h
      ai_cache_ttl_contract [where aiCache = ?c and agentId = GROK_4 and marketId = "''m1''"
        and entry = "\<lparr>decision = example_decision, cachedAt = 0\<rparr>" and now = 29999]
      ai_cache_ttl_contract [where aiCache = ?c and agentId = GROK_4 and marketId = "''m1''"
        and entry = "\<lparr>decision = example_decision, cachedAt = 0\<rparr>" and now = 30000]
    by simp
qed

text \<open>
  C7 as stated fails: one minute after it was stored, well inside a TTL of five minutes,
  the decision is no longer returned.
\<close>

theorem ai_cache_five_minute_ttl_counterexample:
  "(60000 :: int) - 0 < 5 * 60 * 1000
   \<and> fst (getCachedAIDecision 60000
            (setCachedAIDecision 0 Map.empty GROK_4 ''m1'' example_decision) GROK_4 ''m1'')
      = None"
  by (simp add: getCachedAIDecision_def setCachedAIDecision_def AI_CACHE_TTL_def Let_def)

subsection \<open>Agent trade cache\<close>

lemma market_ids_changed_iff:
  "length xs = length ys \<Longrightarrow> market_ids_changed xs ys \<longleftrightarrow> xs \<noteq> ys"
  by (induction xs ys rule: market_ids_changed.induct) auto

text \<open>
  C8, as amended. For a stored entry, \<open>getCachedAgentTrades\<close> reports a hit exactly when
  the entry is at most 20 seconds old, the current sorted market ids equal the stored
  ones, and the entry is not an empty trade set younger than 10 seconds; on a hit the
  stored trades are returned and the cache is unchanged, otherwise the entry is deleted.
\<close>

theorem agent_cache_hit_condition:
  assumes "agentCache agentId = Some entry"
  shows "getCachedAgentTrades now agentCache agentId currentMarketIds =
           (if now - ce_generatedAt entry \<le> 20000 \<and> ce_marketIds entry = currentMarketIds
               \<and> \<not> (ce_trades entry = [] \<and> now - ce_generatedAt entry < 10000)
            then (Some (ce_trades entry), agentCache)
            else (None, agentCache(agentId := None)))"
  using assms market_ids_changed_iff [of "ce_marketIds entry" currentMarketIds]
  by (auto simp add: getCachedAgentTrades_def CACHE_TTL_MS_def Let_def)

theorem agent_cache_hit_condition_witness:
  "(Map.empty(GROK_4 \<mapsto> example_cache_entry)) GROK_4 = Some example_cache_entry
   \<and> getCachedAgentTrades 20000 (Map.empty(GROK_4 \<mapsto> example_cache_entry)) GROK_4 [''m1'']
        = (Some [example_trade], Map.empty(GROK_4 \<mapsto> example_cache_entry))
   \<and> fst (getCachedAgentTrades 20001 (Map.empty(GROK_4 \<mapsto> example_cache_entry)) GROK_4 [''m1''])
        = None"
proof -
  let ?c = "Map.empty(GROK_4 \<mapsto> example_cache_entry)"
  have h: "?c GROK_4 = Some example_cache_entry" by simp
  show ?thesis
    using h
      agent_cache_hit_condition [where agentCache = ?c and agentId = GROK_4
        and entry = example_cache_entry and now = 20000 and currentMarketIds = "[''m1'']"]
      agent_cache_hit_condition [where agentCache = ?c and agentId = GROK_4
        and entry = example_cache_entry and now = 20001 and currentMarketIds = "[''m1'']"]
    by (simp add: example_cache_entry_def)
qed

text \<open>
  C8 as stated fails: an entry that is 25 seconds old (younger than the TTL of 30
  seconds), whose market ids match and whose trade set is not empty, misses.
\<close>

theorem agent_cache_fresh_matching_entry_counterexample:
  "(25000 :: int) - ce_generatedAt example_cache_entry < 30 * 1000
   \<and> ce_marketIds example_cache_entry = [''m1'']
   \<and> ce_trades example_cache_entry \<noteq> []
   \<and> fst (getCachedAgentTrades 25000 (Map.empty(GROK_4 \<mapsto> example_cache_entry)) GROK_4 [''m1''])
        = None"
  by (simp add: getCachedAgentTrades_def CACHE_TTL_MS_def Let_def example_cache_entry_def)

subsection \<open>Persistence adapter\<close>

text \<open>
  C2, as amended. \<open>saveTrade\<close> of the placeholder adapter accepts every write and
  persists nothing: it resolves for every trade record, and \<open>loadTrades\<close> reports no
  record for any agent, whatever was saved. The compiled adapter under
  \<^verbatim>\<open>dist-server\<close> does the same.
\<close>

theorem save_trade_placeholder:
  "saveTrade getPersistenceAdapter trade = Inr ()
   \<and> loadTrades getPersistenceAdapter agentId = Inr []
   \<and> persisted_with_id getPersistenceAdapter trade = []
   \<and> saveTrade getPersistenceAdapter_dist trade = Inr ()
   \<and> loadTrades getPersistenceAdapter_dist agentId = Inr []
   \<and> persisted_with_id getPersistenceAdapter_dist trade = []"
  by (simp add: getPersistenceAdapter_def getPersistenceAdapter_dist_def persisted_with_id_def)

text \<open>
  C2 as stated fails: after a closed trade was saved twice, no record with its id is
  persisted (not one), and the write that reopens it resolves like any other.
\<close>

theorem save_trade_idempotent_upsert_counterexample:
  "saveTrade getPersistenceAdapter example_closed_record = Inr ()
   \<and> saveTrade getPersistenceAdapter example_closed_record = Inr ()
   \<and> length (persisted_with_id getPersistenceAdapter example_closed_record) = 0
   \<and> r_status example_closed_record = CLOSED
   \<and> r_id example_reopened_record = r_id example_closed_record
   \<and> r_status example_reopened_record = OPEN
   \<and> saveTrade getPersistenceAdapter example_reopened_record = Inr ()"
  by (simp add: getPersistenceAdapter_def persisted_with_id_def example_closed_record_def
        example_reopened_record_def)

subsection \<open>Trade engine\<close>

text \<open>Line 250 reads a name that nothing in scope binds.\<close>

lemma marketHash_unbound:
  "read_identifier (engine_scope agent scored confidence personalityResult index now) ''marketHash''
     = Inl (ReferenceError ''marketHash'')"
  by (simp add: read_identifier_def engine_scope_def)

lemma generateTradeForMarket_result:
  "generateTradeForMarket w rules agent scored newsRelevance newsArticles index now =
     (if m_score scored < 8 then Inr None else Inl (ReferenceError ''marketHash''))"
  by (simp add: generateTradeForMarket_def marketHash_unbound Let_def split: prod.split)

lemma generate_loop_keeps_trades:
  "generate_loop deps worlds agent newsArticles nowMs i topMarkets trades = trades"
  by (induction topMarkets arbitrary: i) (simp_all add: generateTradeForMarket_result Let_def)

lemma cache_holds_no_trade_iff:
  "cache_holds_no_trade agentCache \<longleftrightarrow>
     (\<forall>agentId entry. agentCache agentId = Some entry \<longrightarrow> ce_trades entry = [])"
proof -
  have all: "agentId \<in> set every_agent_id" for agentId
    by (cases agentId) (simp_all add: every_agent_id_def)
  show ?thesis
    by (auto simp add: cache_holds_no_trade_def list_all_iff all split: option.splits)
qed

lemma cache_lookup_preserves:
  assumes "cache_holds_no_trade agentCache"
  shows "cache_holds_no_trade (snd (getCachedAgentTrades now agentCache agentId ids))"
    and "fst (getCachedAgentTrades now agentCache agentId ids) = Some ts \<Longrightarrow> ts = []"
  using assms
  by (auto simp add: getCachedAgentTrades_def cache_holds_no_trade_iff Let_def
      split: option.splits if_splits)

lemma cache_store_preserves:
  "cache_holds_no_trade agentCache \<Longrightarrow>
   cache_holds_no_trade (setCachedAgentTrades now agentCache agentId [] ids)"
  by (simp add: cache_holds_no_trade_iff setCachedAgentTrades_def)

lemma generateAgentTrades_returns_no_trade:
  assumes "cache_holds_no_trade agentCache"
  shows "fst (generateAgentTrades deps gw agentCache agentId) =
           (case fetchAllMarkets gw of
              Inl e \<Rightarrow> Inl e
            | Inr markets \<Rightarrow> (case fetchLatestNews gw of Inl e \<Rightarrow> Inl e | Inr news \<Rightarrow> Inr []))
         \<and> cache_holds_no_trade (snd (generateAgentTrades deps gw agentCache agentId))"
proof (cases "fetchAllMarkets gw")
  case (Inl e)
  then show ?thesis using assms by (simp add: generateAgentTrades_def)
next
  case (Inr markets)
  note m = this
  show ?thesis
  proof (cases "fetchLatestNews gw")
    case (Inl e)
    then show ?thesis using assms m by (simp add: generateAgentTrades_def)
  next
    case (Inr news)
    obtain cached c1 where g: "getCachedAgentTrades (clock_lookup gw) agentCache agentId
        (sort (map m_id markets)) = (cached, c1)"
      by (cases "getCachedAgentTrades (clock_lookup gw) agentCache agentId (sort (map m_id markets))")
    have inv1: "cache_holds_no_trade c1"
      using cache_lookup_preserves(1) [OF assms, of "clock_lookup gw" agentId "sort (map m_id markets)"] g
      by simp
    have hit: "\<And>ts. cached = Some ts \<Longrightarrow> ts = []"
      using cache_lookup_preserves(2) [OF assms, of "clock_lookup gw" agentId "sort (map m_id markets)"] g
      by simp
    show ?thesis
      using m Inr g inv1 hit
      by (auto simp add: generateAgentTrades_def Let_def generate_loop_keeps_trades
          cache_store_preserves split: option.splits)
  qed
qed

text \<open>
  C1. \<open>generateTradeForMarket\<close> never returns a trade: below a score of 8 it returns
  \<^verbatim>\<open>null\<close>, from 8 on it throws the \<^verbatim>\<open>ReferenceError\<close> of the unbound \<^verbatim>\<open>marketHash\<close>.
  So \<open>generateAgentTrades\<close>, which catches the error of each market and goes on,
  returns the empty list whenever its two fetches resolve, and stores nothing but empty
  lists in the agent trade cache: started on a cache that holds no trade (the empty cache
  of a fresh process is one), it leaves a cache that holds no trade.
\<close>

theorem no_trade_is_ever_generated:
  assumes "cache_holds_no_trade agentCache"
  shows "generateTradeForMarket w rules agent scored newsRelevance newsArticles index now =
           (if m_score scored < 8 then Inr None else Inl (ReferenceError ''marketHash''))
         \<and> fst (generateAgentTrades deps gw agentCache agentId) =
           (case fetchAllMarkets gw of
              Inl e \<Rightarrow> Inl e
            | Inr markets \<Rightarrow> (case fetchLatestNews gw of Inl e \<Rightarrow> Inl e | Inr news \<Rightarrow> Inr []))
         \<and> cache_holds_no_trade (snd (generateAgentTrades deps gw agentCache agentId))"
  using generateAgentTrades_returns_no_trade [OF assms, of deps gw agentId]
    generateTradeForMarket_result [of w rules agent scored newsRelevance newsArticles index now]
  by simp

theorem no_trade_is_ever_generated_witness:
  "cache_holds_no_trade Map.empty
   \<and> generateTradeForMarket offline_world no_rules grok_agent example_scored no_news [] 0 1002
       = Inl (ReferenceError ''marketHash'')
   \<and> generateTradeForMarket offline_world no_rules grok_agent (example_scored\<lparr>m_score := 7\<rparr>)
        no_news [] 0 1002 = Inr None
   \<and> fst (generateAgentTrades example_deps example_generator_world Map.empty GROK_4) = Inr []
   \<and> cache_holds_no_trade
        (snd (generateAgentTrades example_deps example_generator_world Map.empty GROK_4))"
proof -
  have h: "cache_holds_no_trade Map.empty"
    by (simp add: cache_holds_no_trade_def every_agent_id_def)
  show ?thesis
    using h
      no_trade_is_ever_generated [OF h, of offline_world no_rules grok_agent example_scored
        no_news "[]" 0 1002 example_deps example_generator_world GROK_4]
      no_trade_is_ever_generated [OF h, of offline_world no_rules grok_agent
        "example_scored\<lparr>m_score := 7\<rparr>" no_news "[]" 0 1002 example_deps
        example_generator_world GROK_4]
    by (simp add: example_scored_def example_generator_world_def)
qed

lemma decide_without_credential:
  "\<not> isAIConfigured w (a_id agent) \<Longrightarrow>
   decide w agent scored newsRelevance newsArticles seed =
     deterministic_decision agent scored newsRelevance seed"
  by (simp add: decide_def Let_def)

lemma decide_llm_failure:
  assumes "\<And>context. isl (getAITradeDecision w (a_id agent) scored context)"
  shows "decide w agent scored newsRelevance newsArticles seed =
     deterministic_decision agent scored newsRelevance seed"
proof -
  let ?ctx = "newsArticles @
     (if length (web_search_results w scored) > 0
      then webArticles w scored (web_search_results w scored) else [])"
  obtain e where "getAITradeDecision w (a_id agent) scored ?ctx = Inl e"
    using assms [of ?ctx] by (cases "getAITradeDecision w (a_id agent) scored ?ctx") simp_all
  then have "ai_decision w agent scored newsArticles (web_search_results w scored) = Inl e"
    by (simp add: ai_decision_def Let_def)
  then show ?thesis
    by (simp add: decide_def Let_def)
qed



text \<open>
  C4. The result without a credential equals the result with the LLM path enabled and
  the LLM call failing, on the same agent, market, news, index and \<open>now\<close>, and so
  does everything that enters the trade before line 250. In both worlds the decision is
  the triple of \<open>getDeterministicSide\<close>, \<open>getDeterministicConfidence\<close> and
  \<open>getDeterministicReasoning\<close> applied to the seed, and the values that enter the trade
  are the personality rules and the sizing applied to that triple at the seed
  \<open>deterministicSeed agentId marketId index\<close>.
\<close>

theorem fallback_round_trip:
  assumes "\<not> isAIConfigured w1 (a_id agent)"
    and "isAIConfigured w2 (a_id agent)"
    and "\<And>context. isl (getAITradeDecision w2 (a_id agent) scored context)"
  shows "generateTradeForMarket w1 rules agent scored newsRelevance newsArticles index now
           = generateTradeForMarket w2 rules agent scored newsRelevance newsArticles index now
       \<and> trade_inputs w1 rules agent scored newsRelevance newsArticles index
           = trade_inputs w2 rules agent scored newsRelevance newsArticles index
       \<and> decide w1 agent scored newsRelevance newsArticles seed
           = decide w2 agent scored newsRelevance newsArticles seed
       \<and> decide w1 agent scored newsRelevance newsArticles seed
           = (getDeterministicSide scored seed, getDeterministicConfidence scored agent seed,
              getDeterministicReasoning scored newsRelevance)
       \<and> decide w2 agent scored newsRelevance newsArticles seed
           = (getDeterministicSide scored seed, getDeterministicConfidence scored agent seed,
              getDeterministicReasoning scored newsRelevance)
       \<and> trade_inputs w2 rules agent scored newsRelevance newsArticles index
           = (let s = deterministicSeed (a_id agent) (m_id scored) index;
                  personalityResult = rules (a_id agent)
                    \<lparr>pc_market = scored, pc_agent = agent,
                     pc_baseSide = getDeterministicSide scored s,
                     pc_baseConfidence = getDeterministicConfidence scored agent s,
                     pc_baseSizeUsd = 100\<rparr>
              in (s, pr_side personalityResult, pr_confidence personalityResult,
                  getDeterministicReasoning scored newsRelevance, personalityResult,
                  finalInvestment agent scored (pr_confidence personalityResult)
                    personalityResult 100))"
proof -
  have d1: "decide w1 agent scored newsRelevance newsArticles s
      = deterministic_decision agent scored newsRelevance s" for s
    using assms(1) by (rule decide_without_credential)
  have d2: "decide w2 agent scored newsRelevance newsArticles s
      = deterministic_decision agent scored newsRelevance s" for s
    using assms(3) by (rule decide_llm_failure)
  show ?thesis
    by (simp add: generateTradeForMarket_result trade_inputs_def d1 d2
        deterministic_decision_def Let_def)
qed

theorem fallback_round_trip_witness:
  "\<not> isAIConfigured offline_world (a_id grok_agent)
   \<and> isAIConfigured failing_llm_world (a_id grok_agent)
   \<and> generateTradeForMarket offline_world no_rules grok_agent example_scored no_news [] 0 1000
       = generateTradeForMarket failing_llm_world no_rules grok_agent example_scored no_news [] 0 1000
   \<and> trade_inputs offline_world no_rules grok_agent example_scored no_news [] 0
       = trade_inputs failing_llm_world no_rules grok_agent example_scored no_news [] 0
   \<and> decide offline_world grok_agent example_scored no_news [] ''GROK_4:m1:0''
       = decide failing_llm_world grok_agent example_scored no_news [] ''GROK_4:m1:0''
   \<and> decide failing_llm_world grok_agent example_scored no_news [] ''GROK_4:m1:0''
       = (getDeterministicSide example_scored ''GROK_4:m1:0'',
          getDeterministicConfidence example_scored grok_agent ''GROK_4:m1:0'',
          getDeterministicReasoning example_scored no_news)"
proof -
  have h1: "\<not> isAIConfigured offline_world (a_id grok_agent)" by (simp add: offline_world_def)
  have h2: "isAIConfigured failing_llm_world (a_id grok_agent)" by (simp add: failing_llm_world_def)
  have h3: "\<And>context. isl (getAITradeDecision failing_llm_world (a_id grok_agent) example_scored context)"
    by (simp add: failing_llm_world_def)
  show ?thesis
    using h1 h2
      fallback_round_trip [OF h1 h2 h3, of no_rules no_news "[]" 0 1000 "''GROK_4:m1:0''"]
    by simp
qed

subsection \<open>Deterministic fallback confidence\<close>

text \<open>The digest of the standard test message.\<close>

lemmas sha256_eval =
  sha256_def sha256_pad_def be64_bytes_def zero_block_def compress_def sha256_K_def
  sha256_H0_def round_T1_def round_T2_def add32_def bsig0_def bsig1_def ssig0_def ssig1_def
  choose32_def majority32_def not32_def rotr_def next_w_def

lemma sha256_abc: "sha256 ''abc'' =
  [3128432319, 2399260650, 1094795486, 1571693091, 2953011619, 2518121116, 3021012833, 4060091821]"
  by (simp add: sha256_eval)

lemma seed_claude: "deterministicSeed CLAUDE_4_5 ''m1'' 1 = ''CLAUDE_4_5:m1:1''"
  by code_simp

lemma jitter_draw_claude:
  "deterministicNumber ''CLAUDE_4_5:m1:1jitter'' = 2691989126 / 4294967295"
  by (simp add: deterministicNumber_def readUInt32BE0_def sha256_eval)

text \<open>The digest is a hash state, so the draw lies in \<open>[0, 1]\<close>.\<close>

lemma length8:
  "length xs = 8 \<Longrightarrow> \<exists>a b c d e f g h. xs = [a, b, c, d, e, f, g, h]"
  by (auto simp add: length_Suc_conv eval_nat_numeral)

lemma length_round_step: "length st = 8 \<Longrightarrow> length (round_step k w st) = 8"
  by (auto dest!: length8)

lemma length_rounds: "length st = 8 \<Longrightarrow> length (rounds ks ws st) = 8"
  by (induction ks ws st rule: rounds.induct) (simp_all add: length_round_step)

lemma is_state_compress: "length hs = 8 \<Longrightarrow> is_state (compress hs block)"
  by (auto simp add: is_state_def list_all_iff compress_def length_rounds add32_def set_zip)

lemma is_state_length: "is_state hs \<Longrightarrow> length hs = 8"
  by (simp add: is_state_def)

lemma is_state_blocks: "is_state hs \<Longrightarrow> is_state (blocks hs ws)"
  by (induction hs ws rule: blocks.induct) (simp_all add: is_state_compress is_state_length)

lemma is_state_sha256: "is_state (sha256 s)"
proof -
  have "is_state sha256_H0" by (simp add: is_state_def sha256_H0_def)
  then show ?thesis by (simp add: sha256_def is_state_blocks)
qed

lemma readUInt32BE0_range: "readUInt32BE0 (sha256 s) \<le> 4294967295"
proof -
  have "sha256 s \<noteq> []" using is_state_sha256 [of s] by (auto simp add: is_state_def)
  then have "hd (sha256 s) \<in> set (sha256 s)" by simp
  then have "hd (sha256 s) < 4294967296" using is_state_sha256 [of s] by (simp add: is_state_def list_all_iff)
  then show ?thesis by (simp add: readUInt32BE0_def)
qed

lemma deterministicNumber_range: "0 \<le> deterministicNumber seed \<and> deterministicNumber seed \<le> 1"
  using readUInt32BE0_range [of seed] by (simp add: deterministicNumber_def)

lemma jitter_range: "\<bar>(deterministicNumber seed - 1 / 2) * (1 / 10)\<bar> \<le> 1 / 20"
proof -
  have "\<bar>deterministicNumber seed - 1 / 2\<bar> \<le> 1 / 2"
    using deterministicNumber_range [of seed] by linarith
  then show ?thesis by simp
qed

lemma fallback_confidence_unfolded:
  "getDeterministicConfidence scored agent seed =
     max (2 / 5) (min (19 / 20)
       (m_score scored / 100 * (case a_risk agent of HIGH \<Rightarrow> 11 / 10 | LOW \<Rightarrow> 9 / 10 | MEDIUM \<Rightarrow> 1)
        + (deterministicNumber (seed @ ''jitter'') - 1 / 2) * (1 / 10)))"
  by (cases "a_risk agent") (simp_all add: getDeterministicConfidence_def Let_def)

lemma fallback_confidence_bounds:
  "2 / 5 \<le> getDeterministicConfidence scored agent seed
   \<and> getDeterministicConfidence scored agent seed \<le> 19 / 20"
  unfolding fallback_confidence_unfolded by (simp add: max_def min_def)

lemma fallback_confidence_agrees:
  assumes "a_risk agent = MEDIUM
        \<or> (a_risk agent = HIGH \<and> m_score scored / 100 * (11 / 10) \<le> 19 / 20)
        \<or> (a_risk agent = LOW \<and> 2 / 5 \<le> m_score scored / 100 * (9 / 10))"
  shows "getDeterministicConfidence scored agent seed
             = spec_confidence (m_score scored) (a_risk agent) seed"
proof (cases "a_risk agent")
  case LOW
  then have b: "(2 / 5 :: real) \<le> m_score scored / 100 * (9 / 10)" using assms by simp
  have "max (m_score scored / 100 * (9 / 10)) (2 / 5 :: real) = m_score scored / 100 * (9 / 10)"
    using b by (rule max_absorb1)
  then show ?thesis
    by (simp add: getDeterministicConfidence_def spec_confidence_def Let_def LOW)
next
  case MEDIUM
  then show ?thesis
    by (simp add: getDeterministicConfidence_def spec_confidence_def Let_def)
next
  case HIGH
  then have b: "m_score scored / 100 * (11 / 10) \<le> (19 / 20 :: real)" using assms by simp
  have "min (m_score scored / 100 * (11 / 10)) (19 / 20 :: real) = m_score scored / 100 * (11 / 10)"
    using b by (rule min_absorb1)
  then show ?thesis
    by (simp add: getDeterministicConfidence_def spec_confidence_def Let_def HIGH)
qed

text \<open>
  C5, as amended. The fallback confidence is \<open>score / 100\<close> times the risk multiplier
  (1.10 for HIGH, 0.90 for LOW, 1 for MEDIUM) plus the jitter, which is at most 0.05 in
  absolute value, clamped once to \<open>[0.40, 0.95]\<close>: no per-risk bound is applied before
  the jitter is added. It equals the
  formula of the specification whenever the risk-adjusted raw value already lies within
  its per-risk bound.
\<close>

theorem fallback_confidence_formula:
  "getDeterministicConfidence scored agent seed =
     max (2 / 5) (min (19 / 20)
       (m_score scored / 100 * (case a_risk agent of HIGH \<Rightarrow> 11 / 10 | LOW \<Rightarrow> 9 / 10 | MEDIUM \<Rightarrow> 1)
        + (deterministicNumber (seed @ ''jitter'') - 1 / 2) * (1 / 10)))
   \<and> \<bar>(deterministicNumber (seed @ ''jitter'') - 1 / 2) * (1 / 10)\<bar> \<le> 1 / 20
   \<and> 2 / 5 \<le> getDeterministicConfidence scored agent seed
   \<and> getDeterministicConfidence scored agent seed \<le> 19 / 20
   \<and> (a_risk agent = MEDIUM
        \<or> (a_risk agent = HIGH \<and> m_score scored / 100 * (11 / 10) \<le> 19 / 20)
        \<or> (a_risk agent = LOW \<and> 2 / 5 \<le> m_score scored / 100 * (9 / 10))
       \<longrightarrow> getDeterministicConfidence scored agent seed
             = spec_confidence (m_score scored) (a_risk agent) seed)"
  using fallback_confidence_unfolded [of scored agent seed]
    fallback_confidence_bounds [of scored agent seed]
    fallback_confidence_agrees [of agent scored seed]
    jitter_range [of "seed @ ''jitter''"]
  by blast

theorem fallback_confidence_formula_witness:
  "a_risk claude_agent = LOW
   \<and> 2 / 5 \<le> m_score (example_scored\<lparr>m_score := 50\<rparr>) / 100 * (9 / 10)
   \<and> getDeterministicConfidence (example_scored\<lparr>m_score := 50\<rparr>) claude_agent ''CLAUDE_4_5:m1:1''
       = spec_confidence 50 LOW ''CLAUDE_4_5:m1:1''
   \<and> getDeterministicConfidence (example_scored\<lparr>m_score := 50\<rparr>) claude_agent ''CLAUDE_4_5:m1:1''
       \<le> 19 / 20"
  using fallback_confidence_formula
    [of "example_scored\<lparr>m_score := 50\<rparr>" claude_agent "''CLAUDE_4_5:m1:1''"]
  by (simp add: claude_agent_def example_scored_def)

text \<open>
  C5 as stated fails for the LOW-risk agent CLAUDE_4_5 on the market \<open>m1\<close> scored 12 at
  index 1, where the jitter is positive: the code clamps \<open>0.108 + jitter\<close> up to 0.40,
  the formula of the specification lifts the raw value to 0.40 first and then adds the
  jitter.
\<close>

theorem fallback_confidence_counterexample:
  "getDeterministicConfidence example_scored claude_agent (deterministicSeed CLAUDE_4_5 ''m1'' 1) = 2 / 5
   \<and> spec_confidence (m_score example_scored) (a_risk claude_agent)
        (deterministicSeed CLAUDE_4_5 ''m1'' 1) > 41 / 100"
  unfolding seed_claude
  by (simp add: getDeterministicConfidence_def spec_confidence_def jitter_draw_claude
      example_scored_def claude_agent_def Let_def)

subsection \<open>Position sizing\<close>

lemma js_round_bounds:
  assumes "130 \<le> x" and "x \<le> 600"
  shows "130 \<le> real_of_int (js_round (x / 10)) * 10" and "real_of_int (js_round (x / 10)) * 10 \<le> 600"
proof -
  have "13 \<le> js_round (x / 10)" unfolding js_round_def using assms(1) by (simp add: le_floor_iff)
  then have "(13::real) \<le> real_of_int (js_round (x / 10))" by linarith
  then show "130 \<le> real_of_int (js_round (x / 10)) * 10" by simp
  have "js_round (x / 10) \<le> 60" unfolding js_round_def using assms(2) by (simp add: floor_le_iff)
  then have "real_of_int (js_round (x / 10)) \<le> (60::real)" by linarith
  then show "real_of_int (js_round (x / 10)) * 10 \<le> 600" by simp
qed

lemma finalInvestment_range:
  assumes "m_id scored \<noteq> []"
  shows "\<exists>v. finalInvestment agent scored confidence pr base = Num v \<and> 130 \<le> v \<and> v \<le> 600"
proof -
  obtain c cs where id: "m_id scored = c # cs" using assms by (cases "m_id scored") auto
  then obtain u where u: "investmentUsd agent scored confidence pr base = Num u"
    by (simp add: investmentUsd_def marketVariation_def charCodeAt0_def Let_def)
  let ?x = "max MIN_INVESTMENT (min u MAX_INVESTMENT)"
  have r: "130 \<le> ?x" "?x \<le> 600"
    by (simp_all add: MIN_INVESTMENT_def MAX_INVESTMENT_def STARTING_CAPITAL_def)
  have "finalInvestment agent scored confidence pr base = Num (real_of_int (js_round (?x / 10)) * 10)"
    by (simp add: finalInvestment_def clampedInvestment_def cappedInvestment_def u)
  then show ?thesis using js_round_bounds [OF r] by simp
qed






subsection \<open>Adaptive tuner\<close>

lemma snapshot_of_opened_in_window:
  "computePerformanceSnapshot now agentId trades cap =
     snapshot_of_closed agentId (opened_in_window now trades) cap"
  by (simp add: computePerformanceSnapshot_def opened_in_window_def Let_def conj_commute conj_left_commute)

lemma foldl_pnl: "foldl (\<lambda>sum t. sum + pnl_or_zero t) a xs = a + sum_list (map pnl_or_zero xs)"
  by (induction xs arbitrary: a) simp_all

lemma sum_insort: "sum_list (map f (insort_key k x xs)) = f x + sum_list (map (f :: 'a \<Rightarrow> real) xs)"
  by (induction xs) simp_all

lemma sum_sort_key: "sum_list (map f (sort_key k xs)) = sum_list (map (f :: 'a \<Rightarrow> real) xs)"
  by (induction xs) (simp_all add: sum_insort)

lemma category_loop_pnl:
  "fst (category_loop xs (P, C)) c =
     (if filter (\<lambda>t. category_or_other t = c) xs = [] then P c
      else Some ((case P c of None \<Rightarrow> 0 | Some v \<Rightarrow> v)
                 + sum_list (map pnl_or_zero (filter (\<lambda>t. category_or_other t = c) xs))))"
  by (induction xs arbitrary: P C) (auto simp add: Let_def)

lemma category_loop_count:
  "snd (category_loop xs (P, C)) c =
     (if filter (\<lambda>t. category_or_other t = c) xs = [] then C c
      else Some ((case C c of None \<Rightarrow> 0 | Some n \<Rightarrow> n)
                 + length (filter (\<lambda>t. category_or_other t = c) xs)))"
  by (induction xs arbitrary: P C) (auto simp add: Let_def)

lemma filter_sort_empty: "filter P (sort_key k xs) = [] \<longleftrightarrow> filter P xs = []"
  by (simp add: filter_empty_conv)

lemma snapshot_pnlPct:
  "pnlPct30d (snapshot_of_closed a cs cap) =
     (if cap > 0 then sum_list (map pnl_or_zero cs) / cap * 100 else 0)"
  by (simp add: snapshot_of_closed_def Let_def foldl_pnl split: prod.split)

lemma snapshot_drawdown:
  "maxDrawdownPct30d (snapshot_of_closed a cs cap) =
     drawdown_loop cap (sort_key closed_or_opened cs) (0, 0, 0)"
  by (simp add: snapshot_of_closed_def Let_def split: prod.split)

lemma snapshot_category_pnl:
  "categoryPnl30d (snapshot_of_closed a cs cap) c =
     (if filter (\<lambda>t. category_or_other t = c) cs = [] then None
      else Some (sum_list (map pnl_or_zero (filter (\<lambda>t. category_or_other t = c) cs))))"
proof -
  have "categoryPnl30d (snapshot_of_closed a cs cap) c =
      fst (category_loop (sort_key closed_or_opened cs) (Map.empty, Map.empty)) c"
    by (simp add: snapshot_of_closed_def Let_def split: prod.split)
  moreover have "sum_list (map pnl_or_zero
        (filter (\<lambda>t. category_or_other t = c) (sort_key closed_or_opened cs)))
      = sum_list (map pnl_or_zero (filter (\<lambda>t. category_or_other t = c) cs))"
    by (simp add: filter_sort sum_sort_key)
  ultimately show ?thesis
    by (simp add: category_loop_pnl filter_sort_empty)
qed

lemma snapshot_category_count:
  "categoryTrades30d (snapshot_of_closed a cs cap) c =
     (if filter (\<lambda>t. category_or_other t = c) cs = [] then None
      else Some (length (filter (\<lambda>t. category_or_other t = c) cs)))"
proof -
  have "categoryTrades30d (snapshot_of_closed a cs cap) c =
      snd (category_loop (sort_key closed_or_opened cs) (Map.empty, Map.empty)) c"
    by (simp add: snapshot_of_closed_def Let_def split: prod.split)
  moreover have "length (filter (\<lambda>t. category_or_other t = c) (sort_key closed_or_opened cs))
      = length (filter (\<lambda>t. category_or_other t = c) cs)"
    by (simp add: filter_sort)
  ultimately show ?thesis
    by (simp add: category_loop_count filter_sort_empty)
qed

lemma outside_window_ignored:
  assumes "r_openedAt t < now - thirty_days_ms \<or> r_status t \<noteq> CLOSED \<or> r_pnlUsd t = None"
  shows "computePerformanceSnapshot now a (xs @ t # ys) cap = computePerformanceSnapshot now a (xs @ ys) cap"
  using assms by (auto simp add: snapshot_of_opened_in_window opened_in_window_def)

text \<open>
  C9, as amended. \<open>computePerformanceSnapshot\<close> derives its figures from exactly the
  trades that were opened within the last 30 days before \<open>now\<close>, are CLOSED and carry a
  PnL: the PnL percentage is their PnL sum over the starting capital, the drawdown is
  the loop over them in closing order, and the sum and the count of a category are
  those of its trades among them (absent when there is none). A trade opened earlier
  than 30 days ago does not change the snapshot, whenever it was closed.
\<close>

theorem performance_snapshot_window:
  "computePerformanceSnapshot now agentId trades cap
      = snapshot_of_closed agentId (opened_in_window now trades) cap
   \<and> pnlPct30d (computePerformanceSnapshot now agentId trades cap)
      = (if cap > 0 then sum_list (map pnl_or_zero (opened_in_window now trades)) / cap * 100 else 0)
   \<and> maxDrawdownPct30d (computePerformanceSnapshot now agentId trades cap)
      = drawdown_loop cap (sort_key closed_or_opened (opened_in_window now trades)) (0, 0, 0)
   \<and> categoryPnl30d (computePerformanceSnapshot now agentId trades cap) c
      = (if filter (\<lambda>t. category_or_other t = c) (opened_in_window now trades) = [] then None
         else Some (sum_list (map pnl_or_zero
                      (filter (\<lambda>t. category_or_other t = c) (opened_in_window now trades)))))
   \<and> categoryTrades30d (computePerformanceSnapshot now agentId trades cap) c
      = (if filter (\<lambda>t. category_or_other t = c) (opened_in_window now trades) = [] then None
         else Some (length (filter (\<lambda>t. category_or_other t = c) (opened_in_window now trades))))
   \<and> (r_openedAt t < now - thirty_days_ms \<longrightarrow>
        computePerformanceSnapshot now agentId (xs @ t # ys) cap
          = computePerformanceSnapshot now agentId (xs @ ys) cap)"
  using outside_window_ignored [of t now agentId xs ys cap]
  by (simp add: snapshot_of_opened_in_window snapshot_pnlPct snapshot_drawdown snapshot_category_pnl
      snapshot_category_count)

theorem performance_snapshot_window_witness:
  "r_openedAt example_old_trade < example_now - thirty_days_ms
   \<and> computePerformanceSnapshot example_now GROK_4
        ([example_closed_record\<lparr>r_openedAt := example_now - 5\<rparr>] @ example_old_trade # []) 3000
      = computePerformanceSnapshot example_now GROK_4
        ([example_closed_record\<lparr>r_openedAt := example_now - 5\<rparr>] @ []) 3000
   \<and> pnlPct30d (computePerformanceSnapshot example_now GROK_4
        [example_closed_record\<lparr>r_openedAt := example_now - 5\<rparr>, example_old_trade] 3000) = 4 / 3"
proof -
  let ?recent = "example_closed_record\<lparr>r_openedAt := example_now - 5\<rparr>"
  note window = performance_snapshot_window [of example_now GROK_4
        "[?recent, example_old_trade]" 3000 Crypto example_old_trade "[?recent]" "[]"]
  have h: "r_openedAt example_old_trade < example_now - thirty_days_ms"
    by (simp add: example_old_trade_def example_now_def thirty_days_ms_def)
  have same: "computePerformanceSnapshot example_now GROK_4 ([?recent] @ example_old_trade # []) 3000
      = computePerformanceSnapshot example_now GROK_4 ([?recent] @ []) 3000"
    using h window by blast
  have pct: "pnlPct30d (computePerformanceSnapshot example_now GROK_4
        [?recent, example_old_trade] 3000)
      = (if (3000 :: real) > 0
         then sum_list (map pnl_or_zero (opened_in_window example_now [?recent, example_old_trade]))
                / 3000 * 100
         else 0)"
    using window by blast
  have kept: "opened_in_window example_now [?recent, example_old_trade] = [?recent]"
    by (simp add: opened_in_window_def example_old_trade_def example_closed_record_def
        example_now_def thirty_days_ms_def)
  have "pnlPct30d (computePerformanceSnapshot example_now GROK_4
        [?recent, example_old_trade] 3000) = 4 / 3"
    unfolding pct kept by (simp add: pnl_or_zero_def example_closed_record_def)
  then show ?thesis using h same by blast
qed

text \<open>
  C9 as stated fails: a trade opened 40 days ago and closed yesterday with a PnL of 120
  lies in the window of the specification, where it would give a PnL of 4% and one
  Crypto trade; the code leaves it out and reports 0% and no Crypto trade.
\<close>

theorem closed_at_window_counterexample:
  "spec_closed_in_window example_now [example_old_trade] = [example_old_trade]
   \<and> pnlPct30d (snapshot_of_closed GROK_4 (spec_closed_in_window example_now [example_old_trade]) 3000) = 4
   \<and> pnlPct30d (computePerformanceSnapshot example_now GROK_4 [example_old_trade] 3000) = 0
   \<and> categoryTrades30d (computePerformanceSnapshot example_now GROK_4 [example_old_trade] 3000) Crypto = None
   \<and> categoryTrades30d (snapshot_of_closed GROK_4 (spec_closed_in_window example_now [example_old_trade]) 3000) Crypto = Some 1"
  by (simp add: snapshot_of_opened_in_window snapshot_pnlPct snapshot_category_count opened_in_window_def
      spec_closed_in_window_def example_now_def example_old_trade_def thirty_days_ms_def
      pnl_or_zero_def category_or_other_def)

subsection \<open>Trading cycle\<close>

lemma agent_cycle_try_agentId:
  "agent_cycle_try env agentId agent markets marketsMap = Inr result \<Longrightarrow> c_agentId result = agentId"
  by (auto simp add: agent_cycle_try_def Let_def split: sum.splits option.splits)

lemma runAgentCycle_agentId:
  "runAgentCycle env agentId markets marketsMap = Inr result \<Longrightarrow> c_agentId result = agentId"
  by (auto simp add: runAgentCycle_def failed_cycle_def split: sum.splits
      dest: agent_cycle_try_agentId)

lemma settled_result_agentId:
  "c_agentId (settled_result agentId (runAgentCycle env agentId markets marketsMap)) = agentId"
  by (cases "runAgentCycle env agentId markets marketsMap")
     (simp_all add: settled_result_def failed_cycle_def runAgentCycle_agentId)

lemma runTradingCycle_enabled:
  assumes "enabled config" and "cycleMarkets env = Inr markets" and "cycleNews env = Inr news"
  shows "runTradingCycle env config =
     Inr (map (\<lambda>agentId. settled_result agentId
                  (runAgentCycle env agentId markets (markets_map markets)))
            (ALL_AGENT_IDS env))"
  using assms
  by (simp add: runTradingCycle_def Let_def zip_map2 zip_same_conv_map o_def)

lemma failure_in_try_recorded:
  assumes "agentProfile env agentId = Inr agent"
    and "agent_cycle_try env agentId agent markets marketsMap = Inl e"
  shows "settled_result agentId (runAgentCycle env agentId markets marketsMap)
           = failed_cycle agentId (endTime env agentId - startTime env agentId) (error_message e)"
  using assms by (simp add: runAgentCycle_def settled_result_def)

lemma runTradingCycle_disabled:
  "\<not> enabled config \<Longrightarrow> runTradingCycle env config = Inr []"
  by (simp add: runTradingCycle_def)

lemma runTradingCycle_rejected:
  assumes "enabled config"
  shows "isl (cycleMarkets env) \<or> isl (cycleNews env) \<Longrightarrow> isl (runTradingCycle env config)"
    and "cycleMarkets env = Inl e \<Longrightarrow> runTradingCycle env config = Inl e"
    and "\<not> isl (cycleMarkets env) \<Longrightarrow> cycleNews env = Inl e \<Longrightarrow> runTradingCycle env config = Inl e"
  using assms
  by (auto simp add: runTradingCycle_def Let_def isl_def split: sum.splits)

lemma one_result_per_id:
  assumes "distinct (map f xs)" and "a \<in> set (map f xs)"
  shows "length (filter (\<lambda>x. f x = a) xs) = 1"
  using assms
proof (induction xs)
  case Nil
  then show ?case by simp
next
  case (Cons x xs)
  show ?case
  proof (cases "f x = a")
    case True
    then have "a \<notin> set (map f xs)" using Cons.prems(1) by auto
    then have "filter (\<lambda>x. f x = a) xs = []" by (auto simp add: filter_empty_conv)
    then show ?thesis using True by simp
  next
    case False
    then show ?thesis using Cons by auto
  qed
qed

lemma agent_cycle_try_sibling:
  assumes "other \<noteq> agentId"
  shows "agent_cycle_try (env\<lparr>agentProfile := (agentProfile env)(other := profile),
                             agentTrades := (agentTrades env)(other := outcome)\<rparr>)
            agentId agent markets marketsMap
         = agent_cycle_try env agentId agent markets marketsMap"
  using assms by (simp add: agent_cycle_try_def cong: sum.case_cong option.case_cong)

lemma runAgentCycle_sibling:
  assumes "other \<noteq> agentId"
  shows "runAgentCycle (env\<lparr>agentProfile := (agentProfile env)(other := profile),
                           agentTrades := (agentTrades env)(other := outcome)\<rparr>)
            agentId markets marketsMap
         = runAgentCycle env agentId markets marketsMap"
  using assms by (simp add: runAgentCycle_def agent_cycle_try_sibling cong: sum.case_cong)

text \<open>
  C10, as amended. With \<open>enabled\<close> false \<open>runTradingCycle\<close> returns the empty list, and
  a rejected market or news fetch rejects the whole call (with that fetch's reason when
  the other fetch resolved). When the cycle is enabled and both fetches resolve, it
  returns one cycle result per agent id, in the order of the ids (exactly one result
  carries each id when the ids are distinct). The result at an agent's index is the value
  that agent's own cycle returned; the failure record with \<open>success = false\<close>, the
  error message and the elapsed time when the body of its \<^verbatim>\<open>try\<close> threw; the failure
  record with \<open>success = false\<close> and the rejection's message when its promise rejected.
  It stays the same when the profile lookup and the trade generation of any other agent
  are replaced by any outcome, a failure included.
\<close>

theorem trading_cycle_isolates_failures:
  "(\<not> enabled config \<longrightarrow> runTradingCycle env config = Inr [])
   \<and> (enabled config \<and> (isl (cycleMarkets env) \<or> isl (cycleNews env)) \<longrightarrow>
        isl (runTradingCycle env config))
   \<and> (enabled config \<and> cycleMarkets env = Inl e \<longrightarrow> runTradingCycle env config = Inl e)
   \<and> (enabled config \<and> \<not> isl (cycleMarkets env) \<and> cycleNews env = Inl e \<longrightarrow>
        runTradingCycle env config = Inl e)
   \<and> (enabled config \<and> cycleMarkets env = Inr markets \<and> cycleNews env = Inr news \<longrightarrow>
        (\<exists>results.
           runTradingCycle env config = Inr results
         \<and> results = map (\<lambda>agentId. settled_result agentId
                              (runAgentCycle env agentId markets (markets_map markets)))
                        (ALL_AGENT_IDS env)
         \<and> length results = length (ALL_AGENT_IDS env)
         \<and> map c_agentId results = ALL_AGENT_IDS env
         \<and> (distinct (ALL_AGENT_IDS env) \<longrightarrow>
              (\<forall>agentId \<in> set (ALL_AGENT_IDS env).
                 length (filter (\<lambda>result. c_agentId result = agentId) results) = 1))
         \<and> (\<forall>i < length (ALL_AGENT_IDS env).
              (\<forall>result. runAgentCycle env (ALL_AGENT_IDS env ! i) markets (markets_map markets)
                           = Inr result \<longrightarrow> results ! i = result)
            \<and> (\<forall>agent error.
                  agentProfile env (ALL_AGENT_IDS env ! i) = Inr agent
                  \<and> agent_cycle_try env (ALL_AGENT_IDS env ! i) agent markets (markets_map markets)
                      = Inl error \<longrightarrow>
                  results ! i = failed_cycle (ALL_AGENT_IDS env ! i)
                                  (endTime env (ALL_AGENT_IDS env ! i)
                                     - startTime env (ALL_AGENT_IDS env ! i))
                                  (error_message error)
                  \<and> \<not> c_success (results ! i)
                  \<and> c_error (results ! i) = Some (error_message error))
            \<and> (\<forall>error.
                  runAgentCycle env (ALL_AGENT_IDS env ! i) markets (markets_map markets)
                    = Inl error \<longrightarrow>
                  results ! i = failed_cycle (ALL_AGENT_IDS env ! i) 0
                                  (or_string (error_message error) ''Unknown error'')
                  \<and> \<not> c_success (results ! i)
                  \<and> c_error (results ! i)
                      = Some (or_string (error_message error) ''Unknown error''))
            \<and> (\<forall>other profile outcome. other \<noteq> ALL_AGENT_IDS env ! i \<longrightarrow>
                  (\<exists>changed.
                     runTradingCycle
                       (env\<lparr>agentProfile := (agentProfile env)(other := profile),
                            agentTrades := (agentTrades env)(other := outcome)\<rparr>) config
                       = Inr changed
                   \<and> changed ! i = results ! i)))))"
proof -
  have main: "\<exists>results.
           runTradingCycle env config = Inr results
         \<and> results = map (\<lambda>agentId. settled_result agentId
                              (runAgentCycle env agentId markets (markets_map markets)))
                        (ALL_AGENT_IDS env)
         \<and> length results = length (ALL_AGENT_IDS env)
         \<and> map c_agentId results = ALL_AGENT_IDS env
         \<and> (distinct (ALL_AGENT_IDS env) \<longrightarrow>
              (\<forall>agentId \<in> set (ALL_AGENT_IDS env).
                 length (filter (\<lambda>result. c_agentId result = agentId) results) = 1))
         \<and> (\<forall>i < length (ALL_AGENT_IDS env).
              (\<forall>result. runAgentCycle env (ALL_AGENT_IDS env ! i) markets (markets_map markets)
                           = Inr result \<longrightarrow> results ! i = result)
            \<and> (\<forall>agent error.
                  agentProfile env (ALL_AGENT_IDS env ! i) = Inr agent
                  \<and> agent_cycle_try env (ALL_AGENT_IDS env ! i) agent markets (markets_map markets)
                      = Inl error \<longrightarrow>
                  results ! i = failed_cycle (ALL_AGENT_IDS env ! i)
                                  (endTime env (ALL_AGENT_IDS env ! i)
                                     - startTime env (ALL_AGENT_IDS env ! i))
                                  (error_message error)
                  \<and> \<not> c_success (results ! i)
                  \<and> c_error (results ! i) = Some (error_message error))
            \<and> (\<forall>error.
                  runAgentCycle env (ALL_AGENT_IDS env ! i) markets (markets_map markets)
                    = Inl error \<longrightarrow>
                  results ! i = failed_cycle (ALL_AGENT_IDS env ! i) 0
                                  (or_string (error_message error) ''Unknown error'')
                  \<and> \<not> c_success (results ! i)
                  \<and> c_error (results ! i)
                      = Some (or_string (error_message error) ''Unknown error''))
            \<and> (\<forall>other profile outcome. other \<noteq> ALL_AGENT_IDS env ! i \<longrightarrow>
                  (\<exists>changed.
                     runTradingCycle
                       (env\<lparr>agentProfile := (agentProfile env)(other := profile),
                            agentTrades := (agentTrades env)(other := outcome)\<rparr>) config
                       = Inr changed
                   \<and> changed ! i = results ! i)))"
    if en: "enabled config" and m: "cycleMarkets env = Inr markets" and n: "cycleNews env = Inr news"
  proof -
    let ?ids = "ALL_AGENT_IDS env"
    let ?r = "\<lambda>agentId. settled_result agentId
                (runAgentCycle env agentId markets (markets_map markets))"
    let ?results = "map ?r ?ids"
    have run: "runTradingCycle env config = Inr ?results"
      using en m n by (rule runTradingCycle_enabled)
    have ids: "map c_agentId ?results = ?ids"
      by (simp add: o_def settled_result_agentId)
    have one: "length (filter (\<lambda>result. c_agentId result = agentId) ?results) = 1"
      if "distinct ?ids" and "agentId \<in> set ?ids" for agentId
      using one_result_per_id [of c_agentId ?results agentId] that unfolding ids by simp
    have own: "?results ! i = result"
      if "i < length ?ids" and "runAgentCycle env (?ids ! i) markets (markets_map markets) = Inr result"
      for i result
      using that by (simp add: settled_result_def)
    have thrown: "?results ! i = failed_cycle (?ids ! i)
                                  (endTime env (?ids ! i) - startTime env (?ids ! i))
                                  (error_message error)
                  \<and> \<not> c_success (?results ! i)
                  \<and> c_error (?results ! i) = Some (error_message error)"
      if "i < length ?ids" and "agentProfile env (?ids ! i) = Inr agent"
        and "agent_cycle_try env (?ids ! i) agent markets (markets_map markets) = Inl error"
      for i agent error
      using that failure_in_try_recorded [OF that(2) that(3)]
      by (simp add: failed_cycle_def)
    have rejected: "?results ! i = failed_cycle (?ids ! i) 0
                                  (or_string (error_message error) ''Unknown error'')
                  \<and> \<not> c_success (?results ! i)
                  \<and> c_error (?results ! i)
                      = Some (or_string (error_message error) ''Unknown error'')"
      if "i < length ?ids"
        and "runAgentCycle env (?ids ! i) markets (markets_map markets) = Inl error"
      for i error
      using that by (simp add: settled_result_def failed_cycle_def)
    have sibling: "\<exists>changed.
                     runTradingCycle
                       (env\<lparr>agentProfile := (agentProfile env)(other := profile),
                            agentTrades := (agentTrades env)(other := outcome)\<rparr>) config
                       = Inr changed
                   \<and> changed ! i = ?results ! i"
      if "i < length ?ids" and "other \<noteq> ?ids ! i" for i other profile outcome
    proof -
      let ?env = "env\<lparr>agentProfile := (agentProfile env)(other := profile),
                       agentTrades := (agentTrades env)(other := outcome)\<rparr>"
      have "runTradingCycle ?env config =
          Inr (map (\<lambda>agentId. settled_result agentId
                      (runAgentCycle ?env agentId markets (markets_map markets)))
                 (ALL_AGENT_IDS ?env))"
        by (rule runTradingCycle_enabled [where news = news]) (simp_all add: en m n)
      moreover have "map (\<lambda>agentId. settled_result agentId
                      (runAgentCycle ?env agentId markets (markets_map markets)))
                 (ALL_AGENT_IDS ?env) ! i = ?results ! i"
        using that runAgentCycle_sibling [OF that(2), where env = env and profile = profile
            and outcome = outcome and markets = markets and marketsMap = "markets_map markets"]
        by simp
      ultimately show ?thesis by blast
    qed
    have shape: "length ?results = length ?ids" by simp
    show ?thesis
      apply (rule exI [of _ ?results])
      apply (intro conjI allI impI ballI)
                  apply (rule run)
                 apply (rule refl)
                apply (rule shape)
               apply (rule ids)
              apply (erule (1) one)
             apply (erule (1) own)
      using thrown rejected sibling by blast+
  qed
  show ?thesis
    apply (intro conjI impI)
        apply (erule runTradingCycle_disabled)
       apply (erule conjE, erule (1) runTradingCycle_rejected(1))
      apply (erule conjE, erule (1) runTradingCycle_rejected(2))
     apply (elim conjE, erule (2) runTradingCycle_rejected(3))
    apply (elim conjE, erule (2) main)
    done
qed

theorem trading_cycle_isolates_failures_witness:
  "enabled \<lparr>enabled = True, intervalMs = 60000\<rparr>
   \<and> cycleMarkets example_cycle_env = Inr [Market.truncate example_scored]
   \<and> cycleNews example_cycle_env = Inr []
   \<and> runTradingCycle example_cycle_env \<lparr>enabled = True, intervalMs = 60000\<rparr> = Inr
     [\<lparr>c_agentId = GROK_4, c_success = True, c_candidateMarkets = 1, c_newTrades = 0,
       c_closedTrades = 0, c_openPositions = 0, c_cycleMs = 5, c_error = None\<rparr>,
      \<lparr>c_agentId = GPT_5, c_success = True, c_candidateMarkets = 1, c_newTrades = 0,
       c_closedTrades = 0, c_openPositions = 0, c_cycleMs = 5, c_error = None\<rparr>,
      \<lparr>c_agentId = DEEPSEEK_V3, c_success = True, c_candidateMarkets = 1, c_newTrades = 0,
       c_closedTrades = 0, c_openPositions = 0, c_cycleMs = 5, c_error = None\<rparr>,
      \<lparr>c_agentId = GEMINI_2_5, c_success = True, c_candidateMarkets = 1, c_newTrades = 0,
       c_closedTrades = 0, c_openPositions = 0, c_cycleMs = 5, c_error = None\<rparr>,
      failed_cycle CLAUDE_4_5 5 ''LLM quota exceeded'',
      failed_cycle QWEN_2_5 0 ''Unknown agent'']
   \<and> \<not> enabled \<lparr>enabled = False, intervalMs = 60000\<rparr>
   \<and> runTradingCycle example_cycle_env \<lparr>enabled = False, intervalMs = 60000\<rparr> = Inr []
   \<and> \<not> isl (cycleMarkets example_cycle_env_without_news)
   \<and> cycleNews example_cycle_env_without_news = Inl (Error ''news down'')
   \<and> runTradingCycle example_cycle_env_without_news \<lparr>enabled = True, intervalMs = 60000\<rparr>
        = Inl (Error ''news down'')"
proof -
  have h1: "enabled \<lparr>enabled = True, intervalMs = 60000\<rparr>" by simp
  have h2: "cycleMarkets example_cycle_env = Inr [Market.truncate example_scored]"
    by (simp add: example_cycle_env_def)
  have h3: "cycleNews example_cycle_env = Inr []"
    by (simp add: example_cycle_env_def)
  have h4: "\<not> enabled \<lparr>enabled = False, intervalMs = 60000\<rparr>" by simp
  have h5: "\<not> isl (cycleMarkets example_cycle_env_without_news)"
    by (simp add: example_cycle_env_without_news_def example_cycle_env_def)
  have h6: "cycleNews example_cycle_env_without_news = Inl (Error ''news down'')"
    by (simp add: example_cycle_env_without_news_def)
  obtain results where
    "runTradingCycle example_cycle_env \<lparr>enabled = True, intervalMs = 60000\<rparr> = Inr results"
    and "results = map (\<lambda>agentId. settled_result agentId
                          (runAgentCycle example_cycle_env agentId [Market.truncate example_scored]
                             (markets_map [Market.truncate example_scored])))
                     (ALL_AGENT_IDS example_cycle_env)"
    using h1 h2 h3
      trading_cycle_isolates_failures [where env = example_cycle_env
        and config = "\<lparr>enabled = True, intervalMs = 60000\<rparr>"
        and markets = "[Market.truncate example_scored]" and news = "[]"]
    by blast
  then have on: "runTradingCycle example_cycle_env \<lparr>enabled = True, intervalMs = 60000\<rparr> = Inr
     [\<lparr>c_agentId = GROK_4, c_success = True, c_candidateMarkets = 1, c_newTrades = 0,
       c_closedTrades = 0, c_openPositions = 0, c_cycleMs = 5, c_error = None\<rparr>,
      \<lparr>c_agentId = GPT_5, c_success = True, c_candidateMarkets = 1, c_newTrades = 0,
       c_closedTrades = 0, c_openPositions = 0, c_cycleMs = 5, c_error = None\<rparr>,
      \<lparr>c_agentId = DEEPSEEK_V3, c_success = True, c_candidateMarkets = 1, c_newTrades = 0,
       c_closedTrades = 0, c_openPositions = 0, c_cycleMs = 5, c_error = None\<rparr>,
      \<lparr>c_agentId = GEMINI_2_5, c_success = True, c_candidateMarkets = 1, c_newTrades = 0,
       c_closedTrades = 0, c_openPositions = 0, c_cycleMs = 5, c_error = None\<rparr>,
      failed_cycle CLAUDE_4_5 5 ''LLM quota exceeded'',
      failed_cycle QWEN_2_5 0 ''Unknown agent'']"
    by (simp add: example_cycle_env_def runAgentCycle_def agent_cycle_try_def
        settled_result_def getPersistenceAdapter_def example_portfolio_def grok_agent_def
        claude_agent_def example_scored_def Market.truncate_def markets_map_def or_string_def
        failed_cycle_def Let_def)
  have off: "runTradingCycle example_cycle_env \<lparr>enabled = False, intervalMs = 60000\<rparr> = Inr []"
    using h4
      trading_cycle_isolates_failures [where env = example_cycle_env
        and config = "\<lparr>enabled = False, intervalMs = 60000\<rparr>"]
    by blast
  have news: "runTradingCycle example_cycle_env_without_news \<lparr>enabled = True, intervalMs = 60000\<rparr>
        = Inl (Error ''news down'')"
    using h1 h5 h6
      trading_cycle_isolates_failures [where env = example_cycle_env_without_news
        and config = "\<lparr>enabled = True, intervalMs = 60000\<rparr>" and e = "Error ''news down''"]
    by blast
  show ?thesis
    using h1 h2 h3 h4 h5 h6 on off news by blast
qed

text \<open>
  C10 as stated fails: with the cycle disabled, \<open>runTradingCycle\<close> returns no result at
  all for the six agents.
\<close>

theorem trading_cycle_disabled_counterexample:
  "length (ALL_AGENT_IDS example_cycle_env) = 6
   \<and> runTradingCycle example_cycle_env \<lparr>enabled = False, intervalMs = 60000\<rparr> = Inr []"
  by (simp add: runTradingCycle_def example_cycle_env_def)

end
